theory Spec2Isabelle
  imports Complex_Main
begin

section \<open>Cross-window tab dragging: the per-window drag controller\<close>

text \<open>
  The drag controller is \<^verbatim>\<open>makeDraggableAndDetachable\<close> (the higher-order component wrapped
  around every tab), the tab strip coordinator is the module-level part of
  \<^verbatim>\<open>tabs.js\<close>, and the store is \<^verbatim>\<open>tabDraggingReducer.js\<close>.

  JavaScript numbers are modelled as exact reals (indices and counts as integers): rounding
  of IEEE doubles, infinities and NaN produced by overflow are outside the model. Wherever the
  source divides, the model's division agrees with it only for a non-zero divisor, which the
  theorems assume.
\<close>

subsection \<open>Constants of the drag controller\<close>

definition DRAG_DETACH_PX_THRESHOLD_X :: real where
  "DRAG_DETACH_PX_THRESHOLD_X = 60"

definition DRAG_DETACH_MS_TIME_BUFFER :: nat where
  "DRAG_DETACH_MS_TIME_BUFFER = 0"


definition DRAG_DETACH_PX_THRESHOLD_POSTSORT :: real where
  "DRAG_DETACH_PX_THRESHOLD_POSTSORT = 80"

definition DRAG_PAGEMOVE_PX_THRESHOLD :: real where
  "DRAG_PAGEMOVE_PX_THRESHOLD = 38"

text \<open>\<^verbatim>\<open>DRAG_PAGEMOVE_MS_TIME_BUFFER\<close> of \<^verbatim>\<open>tabs.js\<close>: time to wait before moving page.\<close>

definition DRAG_PAGEMOVE_MS_TIME_BUFFER :: nat where
  "DRAG_PAGEMOVE_MS_TIME_BUFFER = 1000"

subsection \<open>Mouse events\<close>

text \<open>
  The mouse-move handler receives two shapes of object: a DOM \<^verbatim>\<open>MouseEvent\<close>, which has
  \<^verbatim>\<open>x\<close>, \<^verbatim>\<open>y\<close>, \<^verbatim>\<open>clientX\<close>, \<^verbatim>\<open>clientY\<close>, \<^verbatim>\<open>screenX\<close> and \<^verbatim>\<open>screenY\<close>, and the plain
  object \<^verbatim>\<open>{ clientX, clientY }\<close> that the component builds itself when it replays the last
  known pointer position (its \<^verbatim>\<open>x\<close> and \<^verbatim>\<open>y\<close> are \<^verbatim>\<open>undefined\<close>).
\<close>

record domMouseEvent =
  ev_x :: real
  ev_y :: real
  ev_clientX :: real
  ev_clientY :: real
  ev_screenX :: real
  ev_screenY :: real

datatype mouseEvent =
    MouseEvent domMouseEvent
  | ClientPoint real real

fun clientX :: "mouseEvent \<Rightarrow> real" where
  "clientX (MouseEvent d) = ev_clientX d"
| "clientX (ClientPoint cx cy) = cx"

fun clientY :: "mouseEvent \<Rightarrow> real" where
  "clientY (MouseEvent d) = ev_clientY d"
| "clientY (ClientPoint cx cy) = cy"

text \<open>
  \<^verbatim>\<open>translateEventFromSendMouseMoveInput\<close>: \<^verbatim>\<open>receivedEvent.x === 1 && receivedEvent.y === 99\<close>
  is false for an object without \<^verbatim>\<open>x\<close> and \<^verbatim>\<open>y\<close>.
\<close>

fun translateEventFromSendMouseMoveInput :: "mouseEvent \<Rightarrow> mouseEvent" where
  "translateEventFromSendMouseMoveInput (MouseEvent d) =
     (if ev_x d = 1 \<and> ev_y d = 99
      then ClientPoint (ev_screenX d) (ev_screenY d)
      else MouseEvent d)"
| "translateEventFromSendMouseMoveInput (ClientPoint cx cy) = ClientPoint cx cy"

subsection \<open>Props and instance fields of a draggable tab\<close>

text \<open>
  \<^verbatim>\<open>parentClientRect\<close> as \<^verbatim>\<open>evaluateDraggingTabWidth\<close> of \<^verbatim>\<open>tab.js\<close> builds it: the box
  from the first to the last draggable tab, and the width of the window's body.
\<close>

record clientRect =
  rect_x :: real
  rect_y :: real
  rect_left :: real
  rect_top :: real
  rect_width :: real
  rect_height :: real
  offsetDifference :: real
  windowWidth :: real

text \<open>
  The props the controller reads. \<^verbatim>\<open>displayedTabCount\<close> is \<^verbatim>\<open>currentTabs.size\<close>, the size
  of a list, hence a natural number; the indices are numbers that the code subtracts from.
\<close>

record tabProps =
  displayIndex :: int
  totalTabCount :: int
  firstTabDisplayIndex :: int
  displayedTabCount :: nat
  tabPageIndex :: int
  relativeXDragStart :: real
  dragCanDetach :: bool
  dragSingleTab :: bool
  dragProcessMoves :: bool

text \<open>
  The handle of the detach confirmation's \<^verbatim>\<open>window.setTimeout\<close>, with the variable its
  callback closes over. A timer handle is a positive number, hence truthy, and the field
  keeps it after the timer has fired (nothing resets it then): \<open>dt_fired\<close> tells a timer
  that is still pending from one that has run, which cannot run again.
\<close>

record detachTimeout =
  dt_delay :: nat
  dt_tabLeft :: real
  dt_fired :: bool

text \<open>
  The variables of the closure that \<^verbatim>\<open>throttle (fn, 1)\<close> of lodash returns, which the
  constructor stores on the instance: the arguments of the last call that has not run yet,
  the times (\<^verbatim>\<open>Date.now ()\<close>, in milliseconds) of the last call and of the last run, and
  whether the throttle has a timer of its own.
\<close>

record throttled =
  th_lastArgs :: "mouseEvent option"
  th_lastCallTime :: "int option"
  th_lastInvokeTime :: int
  th_timerId :: bool

record tabInstance =
  parentClientRect :: "clientRect option"
  draggingTabWidth :: "real option"
  nonDraggingTabWidth :: "real option"
  suspendOrderChangeUntilUpdate :: bool
  draggingDetachTimeout :: "detachTimeout option"
  draggingDetachThreshold :: real
  hasRequestedDetach :: bool
  dragTabMouseMoveFrame :: "mouseEvent option"
  singleTabPosition :: "(real \<times> real) option"
  detectSortChangeThrottle :: throttled

subsection \<open>The tab strip coordinator: page-change debounce\<close>

text \<open>
  What the renderer sends out: the intents handed to the store's action creators, and the
  timers and animation frames it asks the window for.
\<close>

datatype intent =
    TabDragDetachRequested real real
  | TabDragSingleTabMoved real real
  | TabDragChangeGroupDisplayIndex bool int
  | TabDragPausingForPageChange int
  | TabDragNotPausingForPageChange
  | SetTimeout nat
  | ClearTimeout
  | RequestAnimationFrame mouseEvent

text \<open>
  The module variable \<^verbatim>\<open>draggingMoveTabPageTimeout\<close>: \<^verbatim>\<open>null\<close>, or a pending timer whose
  callback closes over the destination index it was started with.
\<close>

record pageMoveTimeout =
  pm_delay :: nat
  pm_destinationIndex :: int

type_synonym coordinator = "pageMoveTimeout option"

definition clearDragPageIndexMoveTimeout :: "coordinator \<Rightarrow> coordinator \<times> intent list" where
  "clearDragPageIndexMoveTimeout draggingMoveTabPageTimeout =
     (case draggingMoveTabPageTimeout of
        Some t \<Rightarrow> (None, [ClearTimeout, TabDragNotPausingForPageChange])
      | None \<Rightarrow> (None, []))"

definition beginOrContinueTimeoutForDragPageIndexMove ::
  "coordinator \<Rightarrow> int \<Rightarrow> int \<Rightarrow> int \<Rightarrow> coordinator \<times> intent list" where
  "beginOrContinueTimeoutForDragPageIndexMove draggingMoveTabPageTimeout destinationIndex
       currentTabPageIndex firstTabDisplayIndex' =
     (case draggingMoveTabPageTimeout of
        None \<Rightarrow>
          (let waitingForPageIndex =
                 currentTabPageIndex + (if destinationIndex > firstTabDisplayIndex' then 1 else -1)
           in (Some \<lparr>pm_delay = DRAG_PAGEMOVE_MS_TIME_BUFFER, pm_destinationIndex = destinationIndex\<rparr>,
               [TabDragPausingForPageChange waitingForPageIndex,
                SetTimeout DRAG_PAGEMOVE_MS_TIME_BUFFER]))
      | Some t \<Rightarrow> (Some t, []))"

text \<open>The callback of the page-change timer, run when a pending timer fires.\<close>

definition pageMoveTimeoutFired :: "coordinator \<Rightarrow> coordinator \<times> intent list" where
  "pageMoveTimeoutFired draggingMoveTabPageTimeout =
     (case draggingMoveTabPageTimeout of
        None \<Rightarrow> (None, [])
      | Some t \<Rightarrow>
          (let (c, out) = clearDragPageIndexMoveTimeout (Some t)
           in (c, out @ [TabDragChangeGroupDisplayIndex False (pm_destinationIndex t)])))"

text \<open>
  \<^verbatim>\<open>onDragChangeIndex (props, destinationIndex)\<close>: returns the new module state, whether the
  controller should pause until the next update, and what was dispatched, in order.
\<close>

definition onDragChangeIndex ::
  "coordinator \<Rightarrow> tabProps \<Rightarrow> int \<Rightarrow> coordinator \<times> bool \<times> intent list" where
  "onDragChangeIndex draggingMoveTabPageTimeout props destinationIndex =
     (if displayIndex props \<noteq> destinationIndex then
        (let lastIndexOnCurrentPage =
               (firstTabDisplayIndex props + int (displayedTabCount props)) - 1;
             firstIndexOnCurrentPage = firstTabDisplayIndex props;
             isDraggingToPreviousPage = destinationIndex < firstIndexOnCurrentPage;
             isDraggingToNextPage = destinationIndex > lastIndexOnCurrentPage;
             isDraggingToDifferentPage = isDraggingToPreviousPage \<or> isDraggingToNextPage
         in if isDraggingToDifferentPage then
              (let (shouldPauseDraggingUntilUpdate, moved) =
                     (if isDraggingToNextPage \<and> displayIndex props \<noteq> lastIndexOnCurrentPage
                      then (True, [TabDragChangeGroupDisplayIndex False lastIndexOnCurrentPage])
                      else if isDraggingToPreviousPage \<and> displayIndex props \<noteq> firstIndexOnCurrentPage
                      then (True, [TabDragChangeGroupDisplayIndex False firstIndexOnCurrentPage])
                      else (False, []));
                   (c, out) = beginOrContinueTimeoutForDragPageIndexMove draggingMoveTabPageTimeout
                                destinationIndex (tabPageIndex props) (firstTabDisplayIndex props)
               in (c, shouldPauseDraggingUntilUpdate, moved @ out))
            else
              (let (c, out) = clearDragPageIndexMoveTimeout draggingMoveTabPageTimeout
               in (c, True, out @ [TabDragChangeGroupDisplayIndex False destinationIndex])))
      else
        (let (c, out) = clearDragPageIndexMoveTimeout draggingMoveTabPageTimeout
         in (c, False, out)))"

subsection \<open>The drag controller: index detection, detach detection, mouse moves\<close>

definition detectDragIndexPosition ::
  "tabProps \<Rightarrow> clientRect \<Rightarrow> real \<Rightarrow> real \<Rightarrow> real \<Rightarrow> int" where
  "detectDragIndexPosition props rect tabWidth dragTabWidth tabLeft =
     (let lastIndex = totalTabCount props - 1;
          tabRight = tabLeft + dragTabWidth
      in if tabLeft < 0 - DRAG_PAGEMOVE_PX_THRESHOLD then
           max 0 (firstTabDisplayIndex props - 1)
         else if tabRight > rect_width rect + DRAG_PAGEMOVE_PX_THRESHOLD then
           min lastIndex (firstTabDisplayIndex props + int (displayedTabCount props))
         else
           (let groupIndexOfTabLeft = \<lfloor>(tabLeft - (tabWidth / 2)) / tabWidth\<rfloor> + 1
            in max 0 (min (totalTabCount props - 1)
                          (firstTabDisplayIndex props + groupIndexOfTabLeft))))"

text \<open>The detach test of \<^verbatim>\<open>onTabDraggingMouseMoveDetectSortChange\<close>.\<close>

definition isOutsideBounds :: "clientRect \<Rightarrow> real \<Rightarrow> mouseEvent \<Rightarrow> bool" where
  "isOutsideBounds rect threshold e \<longleftrightarrow>
     clientX e < 0 - DRAG_DETACH_PX_THRESHOLD_X \<or>
     clientX e > windowWidth rect + DRAG_DETACH_PX_THRESHOLD_X \<or>
     clientY e < rect_y rect - threshold \<or>
     clientY e > rect_y rect + rect_height rect + threshold"


text \<open>
  \<^verbatim>\<open>onTabDraggingMouseMoveDetectSortChange (e)\<close>. It reads the props, changes fields of the
  instance, and calls \<^verbatim>\<open>props.onDragChangeIndex\<close>, which is \<^verbatim>\<open>onDragChangeIndex\<close> of the
  coordinator and changes the coordinator's timer. A width that is \<^verbatim>\<open>null\<close> or \<^verbatim>\<open>0\<close> is
  falsy.
\<close>

definition onTabDraggingMouseMoveDetectSortChange ::
  "tabProps \<Rightarrow> tabInstance \<times> coordinator \<Rightarrow> mouseEvent
     \<Rightarrow> (tabInstance \<times> coordinator) \<times> intent list" where
  "onTabDraggingMouseMoveDetectSortChange props st e =
     (let (this, coord) = st in
      case (parentClientRect this, draggingTabWidth this) of
        (None, _) \<Rightarrow> (st, [])
      | (Some rect, None) \<Rightarrow> (st, [])
      | (Some rect, Some dragTabWidth) \<Rightarrow>
         if dragTabWidth = 0 then (st, [])
         else if suspendOrderChangeUntilUpdate this then (st, [])
         else
           (let tabWidth = (case nonDraggingTabWidth this of
                              None \<Rightarrow> dragTabWidth
                            | Some w \<Rightarrow> if w = 0 then dragTabWidth else w);
                tabLeft = clientX e - rect_left rect - relativeXDragStart props
            in if dragCanDetach props \<and> isOutsideBounds rect (draggingDetachThreshold this) e then
                 (case draggingDetachTimeout this of
                    Some t \<Rightarrow> (st, [])
                  | None \<Rightarrow>
                      ((this\<lparr>draggingDetachTimeout :=
                                Some \<lparr>dt_delay = DRAG_DETACH_MS_TIME_BUFFER,
                                      dt_tabLeft = tabLeft, dt_fired = False\<rparr>\<rparr>, coord),
                       [SetTimeout DRAG_DETACH_MS_TIME_BUFFER]))
               else
                 (let (this1, out1) =
                        (if dragCanDetach props \<and> draggingDetachTimeout this \<noteq> None
                         then (this\<lparr>draggingDetachTimeout := None\<rparr>, [ClearTimeout])
                         else (this, []));
                      destinationIndex =
                        detectDragIndexPosition props rect tabWidth dragTabWidth tabLeft;
                      (coord', suspend, out2) = onDragChangeIndex coord props destinationIndex;
                      this2 = (if suspend then this1\<lparr>suspendOrderChangeUntilUpdate := True\<rparr>
                               else this1);
                      this3 = (if displayIndex props \<noteq> destinationIndex
                               then this2\<lparr>draggingDetachThreshold :=
                                            DRAG_DETACH_PX_THRESHOLD_POSTSORT\<rparr>
                               else this2)
                  in ((this3, coord'), out1 @ out2))))"


text \<open>
  \<^verbatim>\<open>onTabDraggingMoveSingleTabWindow\<close>: the element's bounding box is read once and cached;
  \<open>box\<close> is what \<^verbatim>\<open>getBoundingClientRect\<close> would return now, \<open>None\<close> when the element is
  gone.
\<close>

definition onTabDraggingMoveSingleTabWindow ::
  "(real \<times> real) option \<Rightarrow> tabInstance \<Rightarrow> tabInstance \<times> intent list" where
  "onTabDraggingMoveSingleTabWindow box this =
     (case box of
        None \<Rightarrow> (this, [])
      | Some b \<Rightarrow>
          (let p = (case singleTabPosition this of Some q \<Rightarrow> q | None \<Rightarrow> b)
           in (this\<lparr>singleTabPosition := Some p\<rparr>, [TabDragSingleTabMoved (fst p) (snd p)])))"

subsection \<open>The throttle around the sort-change detection\<close>

text \<open>
  The constructor wraps the detection in \<^verbatim>\<open>throttle (..., 1)\<close> of \<^verbatim>\<open>lodash.throttle\<close>, a
  dependency that is not among the sources. The definitions below follow that library's
  algorithm, a debounce with \<^verbatim>\<open>wait = maxWait = 1\<close> that runs on the leading and on the
  trailing edge, function by function: a call runs the detection at once when the wait has
  passed, and otherwise only keeps its arguments, replacing those kept before; the
  throttle's own timer later runs the detection on the arguments kept last. The guard on
  \<^verbatim>\<open>hasRequestedDetach\<close> is in the mouse-move handler, outside the throttle, so a run from
  the timer is not subject to it.
\<close>

definition THROTTLE_WAIT :: int where
  "THROTTLE_WAIT = 1"

definition shouldInvoke :: "throttled \<Rightarrow> int \<Rightarrow> bool" where
  "shouldInvoke th time \<longleftrightarrow>
     (case th_lastCallTime th of
        None \<Rightarrow> True
      | Some lastCallTime \<Rightarrow>
          (let timeSinceLastCall = time - lastCallTime;
               timeSinceLastInvoke = time - th_lastInvokeTime th
           in timeSinceLastCall \<ge> THROTTLE_WAIT \<or> timeSinceLastCall < 0 \<or>
              timeSinceLastInvoke \<ge> THROTTLE_WAIT))"

text \<open>
  \<^verbatim>\<open>remainingWait\<close> is called only after a call, when \<^verbatim>\<open>lastCallTime\<close> is a number.
\<close>

definition remainingWait :: "throttled \<Rightarrow> int \<Rightarrow> int" where
  "remainingWait th time =
     (case th_lastCallTime th of
        None \<Rightarrow> THROTTLE_WAIT
      | Some lastCallTime \<Rightarrow>
          (let timeSinceLastCall = time - lastCallTime;
               timeSinceLastInvoke = time - th_lastInvokeTime th
           in min (THROTTLE_WAIT - timeSinceLastCall) (THROTTLE_WAIT - timeSinceLastInvoke)))"

text \<open>
  \<^verbatim>\<open>invokeFunc\<close> runs the detection on the kept arguments and forgets them; the library
  calls it only when there are arguments.
\<close>

definition invokeFunc ::
  "tabProps \<Rightarrow> int \<Rightarrow> tabInstance \<times> coordinator
     \<Rightarrow> (tabInstance \<times> coordinator) \<times> intent list" where
  "invokeFunc props time st =
     (let (this, coord) = st;
          th = detectSortChangeThrottle this
      in case th_lastArgs th of
           None \<Rightarrow> (st, [])
         | Some args \<Rightarrow>
             onTabDraggingMouseMoveDetectSortChange props
               (this\<lparr>detectSortChangeThrottle :=
                       th\<lparr>th_lastArgs := None, th_lastInvokeTime := time\<rparr>\<rparr>, coord)
               args)"

definition leadingEdge ::
  "tabProps \<Rightarrow> int \<Rightarrow> tabInstance \<times> coordinator
     \<Rightarrow> (tabInstance \<times> coordinator) \<times> intent list" where
  "leadingEdge props time st =
     (let (this, coord) = st;
          th = detectSortChangeThrottle this;
          this1 = this\<lparr>detectSortChangeThrottle :=
                         th\<lparr>th_lastInvokeTime := time, th_timerId := True\<rparr>\<rparr>;
          (st2, out) = invokeFunc props time (this1, coord)
      in (st2, SetTimeout (nat THROTTLE_WAIT) # out))"

definition trailingEdge ::
  "tabProps \<Rightarrow> int \<Rightarrow> tabInstance \<times> coordinator
     \<Rightarrow> (tabInstance \<times> coordinator) \<times> intent list" where
  "trailingEdge props time st =
     (let (this, coord) = st;
          th = detectSortChangeThrottle this;
          this1 = this\<lparr>detectSortChangeThrottle := th\<lparr>th_timerId := False\<rparr>\<rparr>
      in case th_lastArgs th of
           Some args \<Rightarrow> invokeFunc props time (this1, coord)
         | None \<Rightarrow> ((this1, coord), []))"

text \<open>The callback of the throttle's timer.\<close>

definition timerExpired ::
  "tabProps \<Rightarrow> int \<Rightarrow> tabInstance \<times> coordinator
     \<Rightarrow> (tabInstance \<times> coordinator) \<times> intent list" where
  "timerExpired props time st =
     (let (this, coord) = st;
          th = detectSortChangeThrottle this
      in if shouldInvoke th time then trailingEdge props time st
         else ((this\<lparr>detectSortChangeThrottle := th\<lparr>th_timerId := True\<rparr>\<rparr>, coord),
               [SetTimeout (nat (remainingWait th time))]))"

text \<open>
  The throttled function itself (\<^verbatim>\<open>debounced\<close> in the library), called at \<open>time\<close> with
  the event.
\<close>

definition onTabDraggingMouseMoveDetectSortChangeThrottled ::
  "tabProps \<Rightarrow> int \<Rightarrow> tabInstance \<times> coordinator \<Rightarrow> mouseEvent
     \<Rightarrow> (tabInstance \<times> coordinator) \<times> intent list" where
  "onTabDraggingMouseMoveDetectSortChangeThrottled props time st e =
     (let (this, coord) = st;
          th = detectSortChangeThrottle this;
          isInvoking = shouldInvoke th time;
          th1 = th\<lparr>th_lastArgs := Some e, th_lastCallTime := Some time\<rparr>
      in if isInvoking \<and> \<not> th_timerId th1 then
           leadingEdge props time (this\<lparr>detectSortChangeThrottle := th1\<rparr>, coord)
         else if isInvoking then
           (let (st2, out) =
                  invokeFunc props time
                    (this\<lparr>detectSortChangeThrottle := th1\<lparr>th_timerId := True\<rparr>\<rparr>, coord)
            in (st2, SetTimeout (nat THROTTLE_WAIT) # out))
         else if \<not> th_timerId th1 then
           ((this\<lparr>detectSortChangeThrottle := th1\<lparr>th_timerId := True\<rparr>\<rparr>, coord),
            [SetTimeout (nat THROTTLE_WAIT)])
         else ((this\<lparr>detectSortChangeThrottle := th1\<rparr>, coord), []))"

subsection \<open>The mouse-move handler\<close>

text \<open>
  The handler's body after the translation of the event; \<open>now\<close> is the time at which it
  runs. The animation-frame callback \<^verbatim>\<open>dragTab\<close>, which only moves the element on the
  screen, is left as the request for it.
\<close>

definition processTabDraggingMouseMove ::
  "tabProps \<Rightarrow> (real \<times> real) option \<Rightarrow> int \<Rightarrow> tabInstance \<times> coordinator \<Rightarrow> mouseEvent
     \<Rightarrow> (tabInstance \<times> coordinator) \<times> intent list" where
  "processTabDraggingMouseMove props box now st e =
     (let (this, coord) = st;
          (this1, out1) =
            (if \<not> dragSingleTab props then
               (case dragTabMouseMoveFrame this of
                  Some f \<Rightarrow> (this, [])
                | None \<Rightarrow> (this\<lparr>dragTabMouseMoveFrame := Some e\<rparr>, [RequestAnimationFrame e]))
             else (this, []))
      in if dragProcessMoves props then
           (if \<not> dragSingleTab props then
              (if \<not> hasRequestedDetach this1 then
                 (let (st2, out2) =
                        onTabDraggingMouseMoveDetectSortChangeThrottled props now (this1, coord) e
                  in (st2, out1 @ out2))
               else ((this1, coord), out1))
            else
              (let (this2, out2) = onTabDraggingMoveSingleTabWindow box this1
               in ((this2, coord), out1 @ out2)))
         else ((this1, coord), out1))"

definition onTabDraggingMouseMove ::
  "tabProps \<Rightarrow> (real \<times> real) option \<Rightarrow> int \<Rightarrow> tabInstance \<times> coordinator \<Rightarrow> mouseEvent
     \<Rightarrow> (tabInstance \<times> coordinator) \<times> intent list" where
  "onTabDraggingMouseMove props box now st e =
     processTabDraggingMouseMove props box now st (translateEventFromSendMouseMoveInput e)"




fun isDetachRequested :: "intent \<Rightarrow> bool" where
  "isDetachRequested (TabDragDetachRequested tx ty) = True"
| "isDetachRequested i = False"

section \<open>The drag state store\<close>

subsection \<open>Values, Immutable maps, the application state\<close>

text \<open>
  The values that drag data holds: \<^verbatim>\<open>undefined\<close>, \<^verbatim>\<open>null\<close>, booleans, numbers (window and
  tab ids, indices, coordinates), \<^verbatim>\<open>NaN\<close>, and references to objects (the dragged frame),
  which are equal only to themselves.
\<close>

datatype jsval = Undefined | Null | Bool bool | Num real | NaN | Obj nat

text \<open>\<^verbatim>\<open>a === b\<close>, \<^verbatim>\<open>v == null\<close> and the truthiness of a value.\<close>

definition strictEq :: "jsval \<Rightarrow> jsval \<Rightarrow> bool" where
  "strictEq a b \<longleftrightarrow> a = b \<and> a \<noteq> NaN"

definition isNullish :: "jsval \<Rightarrow> bool" where
  "isNullish v \<longleftrightarrow> v = Null \<or> v = Undefined"

fun truthy :: "jsval \<Rightarrow> bool" where
  "truthy Undefined = False"
| "truthy Null = False"
| "truthy (Bool b) = b"
| "truthy (Num r) = (r \<noteq> 0)"
| "truthy NaN = False"
| "truthy (Obj r) = True"

text \<open>
  \<^verbatim>\<open>ToNumber\<close>, where \<open>None\<close> stands for \<^verbatim>\<open>NaN\<close>, and the arithmetic the reducer does:
  subtraction and \<^verbatim>\<open>Math.floor\<close>.
\<close>

fun toNumber :: "jsval \<Rightarrow> real option" where
  "toNumber Undefined = None"
| "toNumber Null = Some 0"
| "toNumber (Bool b) = Some (if b then 1 else 0)"
| "toNumber (Num r) = Some r"
| "toNumber NaN = None"
| "toNumber (Obj r) = None"

definition jsSub :: "jsval \<Rightarrow> jsval \<Rightarrow> jsval" where
  "jsSub a b =
     (case (toNumber a, toNumber b) of
        (Some u, Some v) \<Rightarrow> Num (u - v)
      | _ \<Rightarrow> NaN)"

definition jsFloor :: "jsval \<Rightarrow> jsval" where
  "jsFloor a = (case toNumber a of Some u \<Rightarrow> Num (of_int \<lfloor>u\<rfloor>) | None \<Rightarrow> NaN)"

text \<open>
  An \<^verbatim>\<open>Immutable.Map\<close> with string keys. A key can be present with the value
  \<^verbatim>\<open>undefined\<close> or \<^verbatim>\<open>null\<close>: \<^verbatim>\<open>has\<close> and \<^verbatim>\<open>get (k) != null\<close> differ there.
\<close>

type_synonym immutableMap = "string \<rightharpoonup> jsval"

definition mapGet :: "immutableMap \<Rightarrow> string \<Rightarrow> jsval" where
  "mapGet m k = (case m k of None \<Rightarrow> Undefined | Some v \<Rightarrow> v)"

definition mapHas :: "immutableMap \<Rightarrow> string \<Rightarrow> bool" where
  "mapHas m k \<longleftrightarrow> m k \<noteq> None"

text \<open>
  The application state, as far as the reducer goes: the entry under \<^verbatim>\<open>stateKey\<close>
  (\<^verbatim>\<open>'tabDragData'\<close>), absent or a map, and the tabs' windows. \<^verbatim>\<open>tabState.getWindowId\<close> is
  not among the sources; \<open>getWindowId state tabId\<close> stands for what it returns.
\<close>

record appState =
  tabDragData :: "immutableMap option"
  getWindowId :: "jsval \<Rightarrow> jsval"

text \<open>\<^verbatim>\<open>state.setIn ([stateKey, k], v)\<close>, \<^verbatim>\<open>state.deleteIn ([stateKey, k])\<close> and
  \<^verbatim>\<open>state.mergeIn ([stateKey], m)\<close>; on a state without the entry, \<^verbatim>\<open>setIn\<close> and
  \<^verbatim>\<open>mergeIn\<close> create it and \<^verbatim>\<open>deleteIn\<close> changes nothing.\<close>

definition setIn :: "appState \<Rightarrow> string \<Rightarrow> jsval \<Rightarrow> appState" where
  "setIn state k v =
     state\<lparr>tabDragData :=
       Some ((case tabDragData state of None \<Rightarrow> Map.empty | Some d \<Rightarrow> d)(k \<mapsto> v))\<rparr>"

definition deleteIn :: "appState \<Rightarrow> string \<Rightarrow> appState" where
  "deleteIn state k =
     (case tabDragData state of
        None \<Rightarrow> state
      | Some d \<Rightarrow> state\<lparr>tabDragData := Some (d(k := None))\<rparr>)"

definition mergeIn :: "appState \<Rightarrow> immutableMap \<Rightarrow> appState" where
  "mergeIn state m =
     state\<lparr>tabDragData :=
       Some ((case tabDragData state of None \<Rightarrow> Map.empty | Some d \<Rightarrow> d) ++ m)\<rparr>"

text \<open>
  Modelled from the spec: \<^verbatim>\<open>tabDraggingState.app.delete\<close> is missing from the sources. The
  spec's restart-safety transition is "on process-state restore, delete any leftover
  session", and the reducer's comment says that the previous drag state is discarded.
\<close>

definition app_delete :: "appState \<Rightarrow> appState" where
  "app_delete state = state\<lparr>tabDragData := None\<rparr>"

text \<open>
  Modelled from the spec: \<^verbatim>\<open>tabDraggingState.app.getDragData\<close> is missing from the sources.
  The session is the single shared record of the drag in progress, which the reducer keeps
  under \<^verbatim>\<open>stateKey\<close>.
\<close>

definition app_getDragData :: "appState \<Rightarrow> immutableMap option" where
  "app_getDragData state = tabDragData state"

text \<open>
  Modelled from the spec: \<^verbatim>\<open>tabDraggingState.app.getSourceTabId\<close> is missing from the
  sources. The spec's data model has \<^verbatim>\<open>sourceTabId\<close>, the identity of the dragged tab, as a
  field of the session; without a session there is none.
\<close>

definition app_getSourceTabId :: "appState \<Rightarrow> jsval" where
  "app_getSourceTabId state =
     (case tabDragData state of None \<Rightarrow> Undefined | Some d \<Rightarrow> mapGet d ''sourceTabId'')"

text \<open>
  Modelled from the spec: \<^verbatim>\<open>tabDraggingState.app.getDragDetachedWindowId\<close> is missing from
  the sources. The spec's data model has \<^verbatim>\<open>dragDetachedWindowId\<close>, the window that hosts the
  detached single tab, as a field of the session.
\<close>

definition app_getDragDetachedWindowId :: "appState \<Rightarrow> jsval" where
  "app_getDragDetachedWindowId state =
     (case tabDragData state of None \<Rightarrow> Undefined | Some d \<Rightarrow> mapGet d ''dragDetachedWindowId'')"

subsection \<open>Windows, the screen, effects\<close>

text \<open>
  What the reducer reads from Electron and from the \<^verbatim>\<open>windows\<close> module while it handles one
  action. \<open>fromId\<close> is \<^verbatim>\<open>BrowserWindow.fromId\<close> (\<open>None\<close> for \<^verbatim>\<open>null\<close>);
  \<open>getDragBufferWindow\<close> and \<open>createBufferWindow\<close> are the results of the calls of
  these names; \<open>getWindowClientPointAtCursor\<close> is the function of \<^verbatim>\<open>browserWindowUtil\<close>,
  which is not among the sources (\<open>None\<close> when it throws).
\<close>

record browserWindow =
  win_id :: int
  win_position :: "int \<times> int"
  win_size :: "int \<times> int"
  win_visible :: bool

record env =
  fromId :: "jsval \<Rightarrow> browserWindow option"
  getDragBufferWindow :: "browserWindow option"
  createBufferWindow :: browserWindow
  getCursorScreenPoint :: "real \<times> real"
  getWindowClientPointAtCursor :: "browserWindow option \<Rightarrow> (jsval \<times> jsval) option"
  isWindows :: bool

text \<open>
  The callbacks the reducer hands to \<^verbatim>\<open>setImmediate\<close>, \<^verbatim>\<open>setTimeout\<close> and
  \<^verbatim>\<open>tabs.moveTo\<close>, each with the variables it closes over.
\<close>

datatype deferred =
    MatchBufferWindowToSource int int int int
  | IgnoreMouseEventsOfSingleTabWindow jsval
  | SetTabIndex jsval jsval
  | MoveSingleTabWindow jsval immutableMap jsval jsval
  | RestoreMouseEvents int
  | AttachToHoveredWindow jsval "int option" jsval jsval jsval
  | MatchDetachedWindowToHost int int
  | DetachToBufferWindow jsval immutableMap "browserWindow option" jsval
  | ShowBufferWindowSoon immutableMap int jsval
  | ShowBufferWindowAtCursor immutableMap int jsval

text \<open>
  What a transition or a callback does to the world, in order. The diagnostics written to
  the console and to standard output are left out: they change neither the state nor a window.
\<close>

datatype effect =
    SetIgnoreMouseEvents int bool
  | SetAlwaysOnTop int bool
  | Focus int
  | Blur int
  | Hide int
  | Show int
  | SetPosition int jsval jsval
  | SetSize int int int
  | SetPositionForClientPointAtCursor int jsval jsval jsval
  | CreateBufferWindow
  | ClearWindowIsDragBuffer
  | SetWindowIsDragBuffer jsval
  | TabsSetTabIndex jsval jsval
  | TabsMoveTo jsval jsval jsval deferred
  | SetImmediate deferred
  | SetTimeoutMs nat deferred

datatype error = TypeError

subsection \<open>The transitions\<close>

text \<open>
  A transition returns the new state, or the exception that leaves the old state in place,
  together with the effects it had up to there. \<open>unchanged\<close> is a \<^verbatim>\<open>break\<close> before
  anything happened.
\<close>

type_synonym transition = "(error + appState) \<times> effect list"

definition unchanged :: "appState \<Rightarrow> transition" where
  "unchanged state = (Inr state, [])"

text \<open>\<^verbatim>\<open>APP_SET_STATE\<close>: a drag state left by a crash is discarded.\<close>

definition setState :: "appState \<Rightarrow> transition" where
  "setState state = (Inr (app_delete state), [])"

text \<open>
  \<^verbatim>\<open>APP_TAB_DRAG_STARTED\<close>. \<^verbatim>\<open>dragSourceData.get\<close> throws when the action carries no drag
  source data, and \<^verbatim>\<open>sourceWindow.getPosition\<close> throws when the source window does not exist.
\<close>

definition tabDragStarted :: "env \<Rightarrow> appState \<Rightarrow> immutableMap option \<Rightarrow> transition" where
  "tabDragStarted env state payload =
     (case payload of
        None \<Rightarrow> (Inl TypeError, [])
      | Some dragSourceData \<Rightarrow>
          (let sourceWindowId = mapGet dragSourceData ''originalWindowId'';
               originClientX = mapGet dragSourceData ''originClientX'';
               originClientY = mapGet dragSourceData ''originClientY'';
               originScreenX = mapGet dragSourceData ''originScreenX'';
               originScreenY = mapGet dragSourceData ''originScreenY''
           in case fromId env sourceWindowId of
                None \<Rightarrow> (Inl TypeError, [])
              | Some sourceWindow \<Rightarrow>
                  (let winX = fst (win_position sourceWindow);
                       winY = snd (win_position sourceWindow);
                       frameTopHeight = jsSub (jsSub originScreenY originClientY) (Num (of_int winY));
                       frameLeftWidth = jsSub (jsSub originScreenX originClientX) (Num (of_int winX));
                       state1 = state\<lparr>tabDragData :=
                                  Some (dragSourceData ++ [''frameTopHeight'' \<mapsto> frameTopHeight,
                                                           ''frameLeftWidth'' \<mapsto> frameLeftWidth])\<rparr>
                   in if strictEq (mapGet dragSourceData ''originatedFromSingleTabWindow'') (Bool False)
                      then
                        (let bufferWindow = createBufferWindow env
                         in (Inr (setIn state1 ''bufferWindowId'' (Num (of_int (win_id bufferWindow)))),
                             [CreateBufferWindow,
                              SetImmediate (MatchBufferWindowToSource (win_id sourceWindow)
                                              (win_id bufferWindow) winX winY)]))
                      else
                        (Inr (setIn state1 ''dragDetachedWindowId'' sourceWindowId),
                         [SetImmediate (IgnoreMouseEventsOfSingleTabWindow sourceWindowId)]))))"

text \<open>
  What \<^verbatim>\<open>APP_TAB_DRAG_CANCELLED\<close> and \<^verbatim>\<open>APP_TAB_DRAG_COMPLETE\<close> do to the detached window
  before the state entry is deleted; \<open>None\<close> when \<^verbatim>\<open>BrowserWindow.fromId\<close> gives
  \<^verbatim>\<open>null\<close> and the first call on it throws.
\<close>

definition resetDetachedWindow :: "env \<Rightarrow> appState \<Rightarrow> bool \<Rightarrow> effect list option" where
  "resetDetachedWindow env state andFocus =
     (let detachedWindowId = app_getDragDetachedWindowId state
      in if \<not> isNullish detachedWindowId then
           (case fromId env detachedWindowId of
              None \<Rightarrow> None
            | Some detachedWindow \<Rightarrow>
                Some ([SetIgnoreMouseEvents (win_id detachedWindow) False,
                       SetAlwaysOnTop (win_id detachedWindow) False] @
                      (if andFocus then [Focus (win_id detachedWindow)] else [])))
         else Some [])"

definition tabDragCancelled :: "env \<Rightarrow> appState \<Rightarrow> transition" where
  "tabDragCancelled env state =
     (case resetDetachedWindow env state False of
        None \<Rightarrow> (Inl TypeError, [])
      | Some out \<Rightarrow>
          (Inr (state\<lparr>tabDragData := None\<rparr>),
           out @ (case getDragBufferWindow env of
                    None \<Rightarrow> []
                  | Some bufferWin \<Rightarrow>
                      if win_visible bufferWin then [Hide (win_id bufferWin)] else [])))"

definition tabDragComplete :: "env \<Rightarrow> appState \<Rightarrow> transition" where
  "tabDragComplete env state =
     (case resetDetachedWindow env state True of
        None \<Rightarrow> (Inl TypeError, [])
      | Some out \<Rightarrow>
          (Inr (state\<lparr>tabDragData := None\<rparr>),
           out @ (case getDragBufferWindow env of
                    None \<Rightarrow> []
                  | Some bufferWin \<Rightarrow>
                      if win_visible bufferWin
                      then [Hide (win_id bufferWin), SetIgnoreMouseEvents (win_id bufferWin) False]
                      else [])))"

text \<open>\<^verbatim>\<open>APP_TAB_DRAG_CHANGE_WINDOW_DISPLAY_INDEX\<close>.\<close>

definition tabDragChangeWindowDisplayIndex ::
  "env \<Rightarrow> appState \<Rightarrow> jsval \<Rightarrow> jsval \<Rightarrow> jsval \<Rightarrow> jsval \<Rightarrow> transition" where
  "tabDragChangeWindowDisplayIndex env state senderWindowId destinationDisplayIndex
       destinationFrameIndex requiresMouseUpdate =
     (case tabDragData state of
        None \<Rightarrow> unchanged state
      | Some dragSourceData \<Rightarrow>
          (let sourceTabId = mapGet dragSourceData ''sourceTabId''
           in if isNullish sourceTabId then unchanged state
              else if mapHas dragSourceData ''attachRequestedWindowId'' \<or>
                      mapHas dragSourceData ''detachToRequestedWindowId'' then unchanged state
              else if \<not> strictEq senderWindowId (mapGet dragSourceData ''currentWindowId'')
                   then unchanged state
              else if truthy requiresMouseUpdate then
                (let currentWindowId = getWindowId state sourceTabId;
                     win = fromId env currentWindowId
                 in case getWindowClientPointAtCursor env win of
                      None \<Rightarrow> (Inl TypeError, [])
                    | Some cursorWindowPoint \<Rightarrow>
                        (Inr (mergeIn state
                                [''displayIndexRequested'' \<mapsto> destinationDisplayIndex,
                                 ''dragWindowClientX'' \<mapsto> fst cursorWindowPoint,
                                 ''dragWindowClientY'' \<mapsto> snd cursorWindowPoint]),
                         [SetImmediate (SetTabIndex sourceTabId destinationFrameIndex)]))
              else
                (Inr (mergeIn state [''displayIndexRequested'' \<mapsto> destinationDisplayIndex]),
                 [SetImmediate (SetTabIndex sourceTabId destinationFrameIndex)])))"

text \<open>\<^verbatim>\<open>APP_TAB_ATTACHED\<close>.\<close>

definition tabAttached :: "env \<Rightarrow> appState \<Rightarrow> transition" where
  "tabAttached env state =
     (case tabDragData state of
        None \<Rightarrow> unchanged state
      | Some dragSourceData \<Rightarrow>
          (let sourceTabId = mapGet dragSourceData ''sourceTabId'';
               attachDestinationWindowId = mapGet dragSourceData ''attachRequestedWindowId'';
               detachToRequestedWindowId = mapGet dragSourceData ''detachToRequestedWindowId'';
               currentWindowId = getWindowId state sourceTabId
           in if \<not> isNullish attachDestinationWindowId then
                (if \<not> strictEq currentWindowId attachDestinationWindowId then unchanged state
                 else
                   (let state1 = deleteIn state ''attachRequestedWindowId'';
                        state2 = deleteIn state1 ''displayIndexRequested'';
                        state3 = deleteIn state2 ''dragDetachedWindowId'';
                        win = fromId env currentWindowId
                    in case getWindowClientPointAtCursor env win of
                         None \<Rightarrow> (Inl TypeError, [])
                       | Some cursorWindowPoint \<Rightarrow>
                           (Inr (mergeIn state3
                                   [''currentWindowId'' \<mapsto> currentWindowId,
                                    ''dragWindowClientX'' \<mapsto> fst cursorWindowPoint,
                                    ''dragWindowClientY'' \<mapsto> snd cursorWindowPoint]),
                            [])))
              else if \<not> isNullish detachToRequestedWindowId then
                (if \<not> strictEq currentWindowId detachToRequestedWindowId then unchanged state
                 else
                   (let state1 = deleteIn state ''detachedFromWindowId'';
                        state2 = deleteIn state1 ''detachToRequestedWindowId'';
                        state3 = deleteIn state2 ''displayIndexRequested'';
                        state4 = setIn state3 ''currentWindowId'' currentWindowId;
                        state5 = setIn state4 ''dragDetachedWindowId'' currentWindowId
                    in (Inr state5, [])))
              else unchanged state))"

text \<open>\<^verbatim>\<open>APP_TAB_DRAG_SINGLE_TAB_MOVED\<close>.\<close>

definition tabDragSingleTabMoved ::
  "appState \<Rightarrow> jsval \<Rightarrow> jsval \<Rightarrow> jsval \<Rightarrow> transition" where
  "tabDragSingleTabMoved state tabX tabY windowId =
     (case tabDragData state of
        None \<Rightarrow> unchanged state
      | Some dragSourceData \<Rightarrow>
          (let sourceTabId = mapGet dragSourceData ''sourceTabId'';
               currentWindowId = mapGet dragSourceData ''currentWindowId''
           in if mapHas dragSourceData ''attachRequestedWindowId'' then unchanged state
              else if mapHas dragSourceData ''detachRequestedWindowId'' then unchanged state
              else if mapHas dragSourceData ''detachToRequestedWindowId'' then unchanged state
              else
                (let actualWindowId = getWindowId state sourceTabId
                 in if \<not> strictEq currentWindowId actualWindowId then unchanged state
                    else
                      (let eventSourceWindowId = windowId
                       in if \<not> strictEq currentWindowId eventSourceWindowId then unchanged state
                          else (Inr state,
                                [SetImmediate (MoveSingleTabWindow currentWindowId dragSourceData
                                                 tabX tabY)])))))"

text \<open>
  \<^verbatim>\<open>APP_TAB_DRAG_MOUSEOVER_OTHER_WINDOW_TAB\<close>. The frame options that \<^verbatim>\<open>tabs.moveTo\<close>
  gets are built by helpers that are not among the sources; the callback keeps the frame
  index they are built from.
\<close>

definition tabDragMouseOverOtherWindowTab ::
  "env \<Rightarrow> appState \<Rightarrow> jsval \<Rightarrow> jsval \<Rightarrow> transition" where
  "tabDragMouseOverOtherWindowTab env state senderWindowId frameIndex =
     (let dragData = app_getDragData state;
          sourceTabId = app_getSourceTabId state
      in if isNullish sourceTabId then unchanged state
         else
           (case dragData of
              None \<Rightarrow> (Inl TypeError, [])
            | Some d \<Rightarrow>
                if mapHas d ''attachRequestedWindowId'' then unchanged state
                else if mapHas d ''detachToRequestedWindowId'' then unchanged state
                else
                  (let detachedWindowId = app_getDragDetachedWindowId state
                   in if isNullish detachedWindowId then unchanged state
                      else
                        (let destinationFrameIndex = frameIndex
                         in if isNullish destinationFrameIndex then unchanged state
                            else
                              (let senderWindow = fromId env senderWindowId
                               in case getWindowClientPointAtCursor env senderWindow of
                                    None \<Rightarrow> (Inl TypeError, [])
                                  | Some cursorWindowPoint \<Rightarrow>
                                      (Inr (mergeIn state
                                              [''dragWindowClientX'' \<mapsto> fst cursorWindowPoint,
                                               ''dragWindowClientY'' \<mapsto> snd cursorWindowPoint,
                                               ''attachRequestedWindowId'' \<mapsto> senderWindowId,
                                               ''bufferWindowId'' \<mapsto> detachedWindowId]),
                                       [SetImmediate
                                          (AttachToHoveredWindow detachedWindowId
                                             (map_option win_id senderWindow) sourceTabId
                                             destinationFrameIndex senderWindowId)]))))))"

text \<open>
  \<^verbatim>\<open>APP_TAB_DRAG_DETACH_REQUESTED\<close>. The buffer window is unmarked and the move is scheduled
  before \<^verbatim>\<open>bufferWindow.id\<close> is read for the state update, which throws when there is no
  buffer window.
\<close>

definition tabDragDetachRequested :: "env \<Rightarrow> appState \<Rightarrow> jsval \<Rightarrow> jsval \<Rightarrow> transition" where
  "tabDragDetachRequested env state tabX tabY =
     (case tabDragData state of
        None \<Rightarrow> unchanged state
      | Some dragSourceData \<Rightarrow>
          (let sourceTabId = mapGet dragSourceData ''sourceTabId'';
               currentWindowId = getWindowId state sourceTabId;
               bufferWindow = getDragBufferWindow env;
               out = [ClearWindowIsDragBuffer,
                      SetImmediate (DetachToBufferWindow sourceTabId dragSourceData bufferWindow tabX)]
           in case bufferWindow of
                None \<Rightarrow> (Inl TypeError, out)
              | Some b \<Rightarrow>
                  (Inr (mergeIn state
                          [''detachedFromTabX'' \<mapsto> tabX,
                           ''detachedFromTabY'' \<mapsto> tabY,
                           ''detachedFromWindowId'' \<mapsto> currentWindowId,
                           ''detachToRequestedWindowId'' \<mapsto> Num (of_int (win_id b))]),
                   out)))"

subsection \<open>The reducer\<close>

datatype action =
    APP_SET_STATE
  | APP_TAB_DRAG_STARTED "immutableMap option"
  | APP_TAB_DRAG_CANCELLED
  | APP_TAB_DRAG_COMPLETE
  | APP_TAB_DRAG_CHANGE_WINDOW_DISPLAY_INDEX jsval jsval jsval jsval
  | APP_TAB_ATTACHED
  | APP_TAB_DRAG_SINGLE_TAB_MOVED jsval jsval jsval
  | APP_TAB_DRAG_MOUSEOVER_OTHER_WINDOW_TAB jsval jsval
  | APP_TAB_DRAG_DETACH_REQUESTED jsval jsval
  | OTHER_ACTION

text \<open>
  The payloads are, in the order of the constructors' arguments: \<^verbatim>\<open>dragSourceData\<close>;
  \<^verbatim>\<open>senderWindowId\<close>, \<^verbatim>\<open>destinationDisplayIndex\<close>, \<^verbatim>\<open>destinationFrameIndex\<close>,
  \<^verbatim>\<open>requiresMouseUpdate\<close>; \<^verbatim>\<open>tabX\<close>, \<^verbatim>\<open>tabY\<close>, \<^verbatim>\<open>windowId\<close>; \<^verbatim>\<open>senderWindowId\<close>,
  \<^verbatim>\<open>frameIndex\<close>; \<^verbatim>\<open>tabX\<close>, \<^verbatim>\<open>tabY\<close>. A field the action lacks is \<open>Undefined\<close>. Any other
  action type falls through the \<^verbatim>\<open>switch\<close>.
\<close>

fun reducer :: "env \<Rightarrow> appState \<Rightarrow> action \<Rightarrow> transition" where
  "reducer env state APP_SET_STATE = setState state"
| "reducer env state (APP_TAB_DRAG_STARTED dragSourceData) = tabDragStarted env state dragSourceData"
| "reducer env state APP_TAB_DRAG_CANCELLED = tabDragCancelled env state"
| "reducer env state APP_TAB_DRAG_COMPLETE = tabDragComplete env state"
| "reducer env state (APP_TAB_DRAG_CHANGE_WINDOW_DISPLAY_INDEX senderWindowId
       destinationDisplayIndex destinationFrameIndex requiresMouseUpdate) =
     tabDragChangeWindowDisplayIndex env state senderWindowId destinationDisplayIndex
       destinationFrameIndex requiresMouseUpdate"
| "reducer env state APP_TAB_ATTACHED = tabAttached env state"
| "reducer env state (APP_TAB_DRAG_SINGLE_TAB_MOVED tabX tabY windowId) =
     tabDragSingleTabMoved state tabX tabY windowId"
| "reducer env state (APP_TAB_DRAG_MOUSEOVER_OTHER_WINDOW_TAB senderWindowId frameIndex) =
     tabDragMouseOverOtherWindowTab env state senderWindowId frameIndex"
| "reducer env state (APP_TAB_DRAG_DETACH_REQUESTED tabX tabY) =
     tabDragDetachRequested env state tabX tabY"
| "reducer env state OTHER_ACTION = unchanged state"

text \<open>
  The store handles the actions one after the other, each in the world as it is then. A
  transition that throws ends the run.
\<close>

fun runStore :: "appState \<Rightarrow> (env \<times> action) list \<Rightarrow> transition" where
  "runStore state [] = (Inr state, [])"
| "runStore state (ea # rest) =
     (case reducer (fst ea) state (snd ea) of
        (Inl err, out) \<Rightarrow> (Inl err, out)
      | (Inr state1, out1) \<Rightarrow>
          (case runStore state1 rest of (r, out2) \<Rightarrow> (r, out1 @ out2)))"

subsection \<open>The deferred callbacks\<close>

text \<open>
  Running a callback in the world as it is when its turn comes: the effects it has, and the
  exception that ends it, if any.
\<close>

fun runDeferred :: "env \<Rightarrow> deferred \<Rightarrow> error option \<times> effect list" where
  "runDeferred env (MatchBufferWindowToSource sourceWindow bufferWindow winX winY) =
     (case fromId env (Num (of_int sourceWindow)) of
        None \<Rightarrow> (Some TypeError, [])
      | Some w \<Rightarrow>
          (None, [SetPosition bufferWindow (Num (of_int winX)) (Num (of_int winY)),
                  SetSize bufferWindow (fst (win_size w)) (snd (win_size w))]))"
| "runDeferred env (IgnoreMouseEventsOfSingleTabWindow sourceWindowId) =
     (case fromId env sourceWindowId of
        None \<Rightarrow> (Some TypeError, [])
      | Some detachedWindow \<Rightarrow>
          (None, SetIgnoreMouseEvents (win_id detachedWindow) True #
                 (if isWindows env
                  then [Blur (win_id detachedWindow), SetAlwaysOnTop (win_id detachedWindow) True]
                  else [])))"
| "runDeferred env (SetTabIndex sourceTabId destinationFrameIndex) =
     (None, [TabsSetTabIndex sourceTabId destinationFrameIndex])"
| "runDeferred env (MoveSingleTabWindow currentWindowId dragSourceData tabX tabY) =
     (let mouseScreenPos = getCursorScreenPoint env;
          win = fromId env currentWindowId;
          relativeTabX = mapGet dragSourceData ''relativeXDragStart'';
          relativeTabY = mapGet dragSourceData ''relativeYDragStart'';
          frameLeftWidth = mapGet dragSourceData ''frameLeftWidth'';
          frameTopHeight = mapGet dragSourceData ''frameTopHeight'';
          windowY = jsFloor (jsSub (jsSub (jsSub (Num (snd mouseScreenPos)) tabY) frameTopHeight)
                               relativeTabY);
          windowX = jsFloor (jsSub (jsSub (jsSub (Num (fst mouseScreenPos)) tabX) frameLeftWidth)
                               relativeTabX)
      in case win of
           None \<Rightarrow> (Some TypeError, [])
         | Some w \<Rightarrow>
             (None, [SetPosition (win_id w) windowX windowY,
                     SetIgnoreMouseEvents (win_id w) True,
                     SetImmediate (RestoreMouseEvents (win_id w))]))"
| "runDeferred env (RestoreMouseEvents win) = (None, [SetIgnoreMouseEvents win False])"
| "runDeferred env (AttachToHoveredWindow detachedWindowId senderWindow sourceTabId
       destinationFrameIndex senderWindowId) =
     (case fromId env detachedWindowId of
        None \<Rightarrow> (Some TypeError, [SetWindowIsDragBuffer detachedWindowId])
      | Some detachedWindow \<Rightarrow>
          (let out = [SetWindowIsDragBuffer detachedWindowId,
                      SetIgnoreMouseEvents (win_id detachedWindow) False,
                      SetAlwaysOnTop (win_id detachedWindow) False]
           in case senderWindow of
                None \<Rightarrow> (Some TypeError, out)
              | Some sw \<Rightarrow>
                  (None, out @
                     [Focus sw,
                      TabsMoveTo sourceTabId destinationFrameIndex senderWindowId
                        (MatchDetachedWindowToHost sw (win_id detachedWindow))])))"
| "runDeferred env (MatchDetachedWindowToHost senderWindow detachedWindow) =
     (case fromId env (Num (of_int senderWindow)) of
        None \<Rightarrow> (Some TypeError, [])
      | Some w \<Rightarrow>
          (None, [SetSize detachedWindow (fst (win_size w)) (snd (win_size w)),
                  SetPosition detachedWindow (Num (of_int (fst (win_position w))))
                    (Num (of_int (snd (win_position w))))]))"
| "runDeferred env (DetachToBufferWindow sourceTabId dragSourceData bufferWindow tabX) =
     (case bufferWindow of
        None \<Rightarrow> (Some TypeError, [])
      | Some b \<Rightarrow>
          (None, [TabsMoveTo sourceTabId (mapGet dragSourceData ''frame'') (Num (of_int (win_id b)))
                    (ShowBufferWindowSoon dragSourceData (win_id b) tabX)]))"
| "runDeferred env (ShowBufferWindowSoon dragSourceData bufferWindow tabX) =
     (None, [SetTimeoutMs 50 (ShowBufferWindowAtCursor dragSourceData bufferWindow tabX)])"
| "runDeferred env (ShowBufferWindowAtCursor dragSourceData bufferWindow tabX) =
     (None, Show bufferWindow #
            (if isWindows env then [Blur bufferWindow, SetAlwaysOnTop bufferWindow True] else []) @
            [SetPositionForClientPointAtCursor bufferWindow
               (mapGet dragSourceData ''relativeXDragStart'') tabX
               (mapGet dragSourceData ''originClientY'')])"

section \<open>Properties and scenarios\<close>

subsection \<open>The life of the session, as a function of the actions handled\<close>

fun isDragStarted :: "action \<Rightarrow> bool" where
  "isDragStarted (APP_TAB_DRAG_STARTED dragSourceData) = True"
| "isDragStarted a = False"

fun cancelledOrComplete :: "action \<Rightarrow> bool" where
  "cancelledOrComplete APP_TAB_DRAG_CANCELLED = True"
| "cancelledOrComplete APP_TAB_DRAG_COMPLETE = True"
| "cancelledOrComplete a = False"

fun removesSession :: "action \<Rightarrow> bool" where
  "removesSession APP_SET_STATE = True"
| "removesSession APP_TAB_DRAG_CANCELLED = True"
| "removesSession APP_TAB_DRAG_COMPLETE = True"
| "removesSession a = False"

text \<open>
  \<open>sessionAfter ends b acts\<close>: starting from \<open>b\<close> (is there a session?), a drag start
  sets it, an action among \<open>ends\<close> clears it, any other action leaves it. With \<open>b\<close>
  false it says that a drag start has occurred and none of \<open>ends\<close> has occurred since.
\<close>

fun sessionAfter :: "(action \<Rightarrow> bool) \<Rightarrow> bool \<Rightarrow> action list \<Rightarrow> bool" where
  "sessionAfter ends b [] = b"
| "sessionAfter ends b (a # as) =
     sessionAfter ends (if isDragStarted a then True else if ends a then False else b) as"

subsection \<open>A concrete drag, for the scenarios\<close>

text \<open>
  Window 1 holds tab 7 among others and sits at (100, 50) on the screen; window 2 is the
  hidden buffer window. The tab is grabbed at client point (200, 20), screen point (308, 100),
  15 px right of and 5 px below the tab's corner.
\<close>

definition exampleWindow :: "int \<Rightarrow> bool \<Rightarrow> browserWindow" where
  "exampleWindow i visible =
     \<lparr>win_id = i, win_position = (100, 50), win_size = (800, 600), win_visible = visible\<rparr>"

definition exampleEnv :: env where
  "exampleEnv =
     \<lparr>fromId = (\<lambda>v. if v = Num 1 then Some (exampleWindow 1 True)
                     else if v = Num 2 then Some (exampleWindow 2 False)
                     else None),
      getDragBufferWindow = Some (exampleWindow 2 False),
      createBufferWindow = exampleWindow 2 False,
      getCursorScreenPoint = (400, 300),
      getWindowClientPointAtCursor =
        (\<lambda>w. case w of None \<Rightarrow> None | Some b \<Rightarrow> Some (Num 292, Num 220)),
      isWindows = False\<rparr>"

definition exampleDragSourceData :: immutableMap where
  "exampleDragSourceData =
     [''sourceTabId'' \<mapsto> Num 7,
      ''originalWindowId'' \<mapsto> Num 1,
      ''currentWindowId'' \<mapsto> Num 1,
      ''originClientX'' \<mapsto> Num 200,
      ''originClientY'' \<mapsto> Num 20,
      ''originScreenX'' \<mapsto> Num 308,
      ''originScreenY'' \<mapsto> Num 100,
      ''relativeXDragStart'' \<mapsto> Num 15,
      ''relativeYDragStart'' \<mapsto> Num 5,
      ''tabWidth'' \<mapsto> Num 120,
      ''originatedFromSingleTabWindow'' \<mapsto> Bool False,
      ''frame'' \<mapsto> Obj 0]"

definition exampleIdleState :: appState where
  "exampleIdleState = \<lparr>tabDragData = None, getWindowId = (\<lambda>tabId. Num 1)\<rparr>"

definition exampleDraggingState :: appState where
  "exampleDraggingState =
     \<lparr>tabDragData = Some exampleDragSourceData, getWindowId = (\<lambda>tabId. Num 1)\<rparr>"

text \<open>The state after the drag of tab 7 has started in \<open>exampleEnv\<close>.\<close>

definition exampleStartedState :: appState where
  "exampleStartedState =
     \<lparr>tabDragData =
        Some (exampleDragSourceData
                (''frameTopHeight'' \<mapsto> Num 30,
                 ''frameLeftWidth'' \<mapsto> Num 8,
                 ''bufferWindowId'' \<mapsto> Num 2)),
      getWindowId = (\<lambda>tabId. Num 1)\<rparr>"

text \<open>
  The state after the detach of tab 7 has been requested at tab position (35, 100), and a
  state in which tab 7, dragged in window 3, has been asked to attach to window 1 and is
  in window 1 by now, with the state after that attach has been confirmed.
\<close>

definition exampleDetachRequestedData :: immutableMap where
  "exampleDetachRequestedData =
     exampleDragSourceData
       (''frameTopHeight'' \<mapsto> Num 30,
        ''frameLeftWidth'' \<mapsto> Num 8,
        ''bufferWindowId'' \<mapsto> Num 2,
        ''detachedFromTabX'' \<mapsto> Num 35,
        ''detachedFromTabY'' \<mapsto> Num 100,
        ''detachedFromWindowId'' \<mapsto> Num 1,
        ''detachToRequestedWindowId'' \<mapsto> Num 2)"

definition exampleDetachRequestedState :: appState where
  "exampleDetachRequestedState =
     \<lparr>tabDragData = Some exampleDetachRequestedData, getWindowId = (\<lambda>tabId. Num 1)\<rparr>"

definition exampleAttachRequestedData :: immutableMap where
  "exampleAttachRequestedData =
     exampleDragSourceData
       (''currentWindowId'' \<mapsto> Num 3,
        ''dragDetachedWindowId'' \<mapsto> Num 3,
        ''attachRequestedWindowId'' \<mapsto> Num 1)"

definition exampleAttachRequestedState :: appState where
  "exampleAttachRequestedState =
     \<lparr>tabDragData = Some exampleAttachRequestedData, getWindowId = (\<lambda>tabId. Num 1)\<rparr>"

definition exampleAttachedState :: appState where
  "exampleAttachedState =
     \<lparr>tabDragData =
        Some (exampleAttachRequestedData
                (''attachRequestedWindowId'' := None,
                 ''displayIndexRequested'' := None,
                 ''dragDetachedWindowId'' := None,
                 ''currentWindowId'' \<mapsto> Num 1,
                 ''dragWindowClientX'' \<mapsto> Num 292,
                 ''dragWindowClientY'' \<mapsto> Num 220)),
      getWindowId = (\<lambda>tabId. Num 1)\<rparr>"

subsection \<open>What a drag start fixes\<close>

text \<open>
  The frame offsets and the grab offsets of the session, and their keys.
\<close>

definition dragStartGeometry :: "immutableMap \<Rightarrow> jsval \<times> jsval \<times> jsval \<times> jsval" where
  "dragStartGeometry d =
     (mapGet d ''frameLeftWidth'', mapGet d ''frameTopHeight'',
      mapGet d ''relativeXDragStart'', mapGet d ''relativeYDragStart'')"

definition geometryKeys :: "string set" where
  "geometryKeys = {''frameLeftWidth'', ''frameTopHeight'', ''relativeXDragStart'',
                   ''relativeYDragStart''}"

subsection \<open>The markers of a pending attach or detach\<close>

text \<open>
  The three markers of the session. The store sets \<^verbatim>\<open>detachedFromWindowId\<close> and
  \<^verbatim>\<open>detachToRequestedWindowId\<close> in one merge and deletes them in one transition;
  \<open>detachMarkersPaired\<close> says that the first is not there without the second.
\<close>

definition anyRequestedMarker :: "immutableMap \<Rightarrow> bool" where
  "anyRequestedMarker d \<longleftrightarrow>
     mapHas d ''attachRequestedWindowId'' \<or> mapHas d ''detachToRequestedWindowId'' \<or>
     mapHas d ''detachedFromWindowId''"

definition detachMarkersPaired :: "immutableMap option \<Rightarrow> bool" where
  "detachMarkersPaired session \<longleftrightarrow>
     (case session of
        None \<Rightarrow> True
      | Some d \<Rightarrow> mapHas d ''detachToRequestedWindowId'' \<or> \<not> mapHas d ''detachedFromWindowId'')"

text \<open>
  A drag start whose drag source data does not carry \<^verbatim>\<open>detachedFromWindowId\<close>; the data
  that \<^verbatim>\<open>onDragStart\<close> of \<^verbatim>\<open>tab.js\<close> hands to the action creator has no marker.
\<close>

fun startsWithoutDetachedFrom :: "action \<Rightarrow> bool" where
  "startsWithoutDetachedFrom (APP_TAB_DRAG_STARTED (Some dragSourceData)) =
     (\<not> mapHas dragSourceData ''detachedFromWindowId'')"
| "startsWithoutDetachedFrom a = True"

subsection \<open>Detach confirmation, as seen from outside\<close>

text \<open>The number of detach-requested intents among what was sent out.\<close>

definition detachIntents :: "intent list \<Rightarrow> nat" where
  "detachIntents out = length (filter isDetachRequested out)"










subsection \<open>A concrete tab strip, for the scenarios\<close>

text \<open>
  A window 1000 px wide; the strip shows tabs 0 to 4 of 12, each 100 px wide, from
  \<open>x = 100\<close> to \<open>x = 600\<close>, with top 100 and height 30. The third tab is dragged, grabbed
  15 px from its left edge.
\<close>

definition exampleRect :: clientRect where
  "exampleRect =
     \<lparr>rect_x = 100, rect_y = 100, rect_left = 100, rect_top = 100, rect_width = 500,
      rect_height = 30, offsetDifference = 0, windowWidth = 1000\<rparr>"

definition exampleProps :: tabProps where
  "exampleProps =
     \<lparr>displayIndex = 2, totalTabCount = 12, firstTabDisplayIndex = 0, displayedTabCount = 5,
      tabPageIndex = 0, relativeXDragStart = 15, dragCanDetach = True, dragSingleTab = False,
      dragProcessMoves = True\<rparr>"

definition exampleInstance :: tabInstance where
  "exampleInstance =
     \<lparr>parentClientRect = Some exampleRect, draggingTabWidth = Some 100,
      nonDraggingTabWidth = Some 100, suspendOrderChangeUntilUpdate = False,
      draggingDetachTimeout = None, draggingDetachThreshold = 44, hasRequestedDetach = False,
      dragTabMouseMoveFrame = None, singleTabPosition = None,
      detectSortChangeThrottle =
        \<lparr>th_lastArgs = None, th_lastCallTime = None, th_lastInvokeTime = 0,
         th_timerId = False\<rparr>\<rparr>"

section \<open>Theorems about the store\<close>

subsection \<open>Runs of the store\<close>

lemma runStore_Cons_Inr:
  assumes "runStore s0 (ea # evs) = (Inr s, out)"
  obtains s1 out1 out2 where "reducer (fst ea) s0 (snd ea) = (Inr s1, out1)"
    and "runStore s1 evs = (Inr s, out2)" and "out = out1 @ out2"
proof -
  obtain r out1 where r: "reducer (fst ea) s0 (snd ea) = (r, out1)"
    by (cases "reducer (fst ea) s0 (snd ea)")
  with assms obtain s1 where s1: "r = Inr s1"
    by (cases r) auto
  obtain r2 out2 where r2: "runStore s1 evs = (r2, out2)"
    by (cases "runStore s1 evs")
  with assms r s1 have "r2 = Inr s" and "out = out1 @ out2"
    by simp_all
  with r s1 r2 that show ?thesis
    by blast
qed

subsection \<open>The stale-window guard\<close>

text \<open>
  C3. For every state with an active session and every change-display-index action whose
  \<^verbatim>\<open>senderWindowId\<close> is not (\<^verbatim>\<open>!==\<close>) the session's \<^verbatim>\<open>currentWindowId\<close>, the reducer returns
  the very same state, so no field of the session changes, and it has no effect at all: the
  tab reindex (\<^verbatim>\<open>tabs.setTabIndex\<close>) is not scheduled.
\<close>

theorem stale_window_index_change_ignored:
  assumes "tabDragData state = Some dragSourceData"
    and "\<not> strictEq senderWindowId (mapGet dragSourceData ''currentWindowId'')"
  shows "reducer env state
           (APP_TAB_DRAG_CHANGE_WINDOW_DISPLAY_INDEX senderWindowId destinationDisplayIndex
              destinationFrameIndex requiresMouseUpdate)
         = (Inr state, [])"
  using assms
  by (simp add: tabDragChangeWindowDisplayIndex_def unchanged_def Let_def)

theorem stale_window_index_change_ignored_witness:
  "tabDragData exampleDraggingState = Some exampleDragSourceData \<and>
   \<not> strictEq (Num 2) (mapGet exampleDragSourceData ''currentWindowId'') \<and>
   reducer exampleEnv exampleDraggingState
     (APP_TAB_DRAG_CHANGE_WINDOW_DISPLAY_INDEX (Num 2) (Num 3) (Num 3) (Bool True))
   = (Inr exampleDraggingState, [])"
proof -
  have a: "tabDragData exampleDraggingState = Some exampleDragSourceData"
    by (simp add: exampleDraggingState_def)
  have b: "\<not> strictEq (Num 2) (mapGet exampleDragSourceData ''currentWindowId'')"
    by (simp add: strictEq_def mapGet_def exampleDragSourceData_def)
  from a b stale_window_index_change_ignored [OF a b] show ?thesis
    by simp
qed

subsection \<open>The life of the session\<close>

text \<open>
  \<open>sessionAfter\<close> in words: starting without a session, there is one after the actions
  exactly when some action is a drag start and no later action is among \<open>ends\<close>.
\<close>

lemma sessionAfter_append:
  "sessionAfter ends b (xs @ ys) = sessionAfter ends (sessionAfter ends b xs) ys"
  by (induction xs arbitrary: b) simp_all

lemma sessionAfter_started_since:
  assumes "\<And>a. isDragStarted a \<Longrightarrow> \<not> ends a"
  shows "sessionAfter ends False acts \<longleftrightarrow>
         (\<exists>pre a post. acts = pre @ a # post \<and> isDragStarted a \<and> (\<forall>b\<in>set post. \<not> ends b))"
proof (induction acts rule: rev_induct)
  case Nil
  then show ?case by simp
next
  case (snoc x xs)
  show ?case
  proof (cases "isDragStarted x")
    case True
    then have "sessionAfter ends False (xs @ [x])"
      by (simp add: sessionAfter_append)
    moreover have "\<exists>pre a post. xs @ [x] = pre @ a # post \<and> isDragStarted a \<and> (\<forall>b\<in>set post. \<not> ends b)"
      using True by (intro exI [of _ xs] exI [of _ x] exI [of _ "[]"]) simp
    ultimately show ?thesis by blast
  next
    case notStarted: False
    show ?thesis
    proof (cases "ends x")
      case True
      with notStarted have l: "\<not> sessionAfter ends False (xs @ [x])"
        by (simp add: sessionAfter_append)
      have "\<not> (\<exists>pre a post. xs @ [x] = pre @ a # post \<and> isDragStarted a \<and> (\<forall>b\<in>set post. \<not> ends b))"
      proof
        assume "\<exists>pre a post. xs @ [x] = pre @ a # post \<and> isDragStarted a \<and> (\<forall>b\<in>set post. \<not> ends b)"
        then obtain pre a post where e: "xs @ [x] = pre @ a # post" and s: "isDragStarted a"
          and n: "\<forall>b\<in>set post. \<not> ends b"
          by blast
        show False
        proof (cases post rule: rev_cases)
          case Nil
          with e have "x = a" by simp
          with s notStarted show False by simp
        next
          case (snoc post' y)
          with e have "x = y" by (metis append_assoc append_Cons last_snoc)
          with snoc n True show False by simp
        qed
      qed
      with l show ?thesis by blast
    next
      case False
      with notStarted have l: "sessionAfter ends False (xs @ [x]) = sessionAfter ends False xs"
        by (simp add: sessionAfter_append)
      have "(\<exists>pre a post. xs @ [x] = pre @ a # post \<and> isDragStarted a \<and> (\<forall>b\<in>set post. \<not> ends b))
            \<longleftrightarrow> (\<exists>pre a post. xs = pre @ a # post \<and> isDragStarted a \<and> (\<forall>b\<in>set post. \<not> ends b))"
      proof
        assume "\<exists>pre a post. xs @ [x] = pre @ a # post \<and> isDragStarted a \<and> (\<forall>b\<in>set post. \<not> ends b)"
        then obtain pre a post where e: "xs @ [x] = pre @ a # post" and s: "isDragStarted a"
          and n: "\<forall>b\<in>set post. \<not> ends b"
          by blast
        show "\<exists>pre a post. xs = pre @ a # post \<and> isDragStarted a \<and> (\<forall>b\<in>set post. \<not> ends b)"
        proof (cases post rule: rev_cases)
          case Nil
          with e have "x = a" by simp
          with s notStarted show ?thesis by simp
        next
          case (snoc post' y)
          with e have "xs = pre @ a # post'"
            by (metis append_assoc append_Cons butlast_snoc)
          with s n snoc show ?thesis by auto
        qed
      next
        assume "\<exists>pre a post. xs = pre @ a # post \<and> isDragStarted a \<and> (\<forall>b\<in>set post. \<not> ends b)"
        then obtain pre a post where e: "xs = pre @ a # post" and s: "isDragStarted a"
          and n: "\<forall>b\<in>set post. \<not> ends b"
          by blast
        then have "xs @ [x] = pre @ a # (post @ [x]) \<and> isDragStarted a \<and>
                   (\<forall>b\<in>set (post @ [x]). \<not> ends b)"
          using False by simp
        then show "\<exists>pre a post. xs @ [x] = pre @ a # post \<and> isDragStarted a \<and> (\<forall>b\<in>set post. \<not> ends b)"
          by blast
      qed
      with l snoc.IH show ?thesis by simp
    qed
  qed
qed

text \<open>What one transition that returns does to the existence of the session.\<close>

lemma reducer_session_step:
  assumes "reducer env s a = (Inr s', out)"
  shows "(tabDragData s' \<noteq> None) =
         (if isDragStarted a then True else if removesSession a then False
          else tabDragData s \<noteq> None)"
proof (cases a)
  case APP_SET_STATE
  with assms show ?thesis by (auto simp: setState_def app_delete_def)
next
  case (APP_TAB_DRAG_STARTED p)
  with assms show ?thesis
    by (auto simp: tabDragStarted_def Let_def setIn_def split: option.splits if_splits)
next
  case APP_TAB_DRAG_CANCELLED
  with assms show ?thesis by (auto simp: tabDragCancelled_def split: option.splits)
next
  case APP_TAB_DRAG_COMPLETE
  with assms show ?thesis by (auto simp: tabDragComplete_def split: option.splits)
next
  case (APP_TAB_DRAG_CHANGE_WINDOW_DISPLAY_INDEX a1 a2 a3 a4)
  with assms show ?thesis
    by (auto simp: tabDragChangeWindowDisplayIndex_def unchanged_def Let_def mergeIn_def
             split: option.splits if_splits)
next
  case APP_TAB_ATTACHED
  with assms show ?thesis
    by (auto simp: tabAttached_def unchanged_def Let_def mergeIn_def setIn_def deleteIn_def
             split: option.splits if_splits)
next
  case (APP_TAB_DRAG_SINGLE_TAB_MOVED a1 a2 a3)
  with assms show ?thesis
    by (auto simp: tabDragSingleTabMoved_def unchanged_def Let_def split: option.splits if_splits)
next
  case (APP_TAB_DRAG_MOUSEOVER_OTHER_WINDOW_TAB a1 a2)
  with assms show ?thesis
    by (auto simp: tabDragMouseOverOtherWindowTab_def unchanged_def Let_def mergeIn_def
                   app_getDragData_def app_getSourceTabId_def isNullish_def
             split: option.splits if_splits)
next
  case (APP_TAB_DRAG_DETACH_REQUESTED a1 a2)
  with assms show ?thesis
    by (auto simp: tabDragDetachRequested_def unchanged_def Let_def mergeIn_def
             split: option.splits if_splits)
next
  case OTHER_ACTION
  with assms show ?thesis by (auto simp: unchanged_def)
qed

text \<open>
  C2, as the code has it. Over every sequence of actions that the store handles without an
  exception, the session exists afterwards if and only if a drag start has been handled
  and no drag-cancelled, drag-complete or \<^verbatim>\<open>APP_SET_STATE\<close> action has been handled since
  (or, when none of these four has been handled at all, if it existed before). In
  particular only a drag start creates the session, and each of the other three removes it.
\<close>

theorem session_exists_iff_started_and_not_removed:
  assumes "runStore s0 evs = (Inr s, out)"
  shows "(tabDragData s \<noteq> None) =
         sessionAfter removesSession (tabDragData s0 \<noteq> None) (map snd evs)"
  using assms
proof (induction evs arbitrary: s0 out)
  case Nil
  then show ?case by simp
next
  case (Cons ea evs)
  from Cons.prems obtain s1 out1 out2 where
    r: "reducer (fst ea) s0 (snd ea) = (Inr s1, out1)" and
    rest: "runStore s1 evs = (Inr s, out2)"
    by (rule runStore_Cons_Inr)
  from Cons.IH [OF rest] reducer_session_step [OF r] show ?case
    by simp
qed

lemmas store_eval =
  exampleEnv_def exampleWindow_def exampleDragSourceData_def exampleIdleState_def
  exampleStartedState_def exampleDraggingState_def
  tabDragStarted_def tabDragCancelled_def tabDragComplete_def setState_def
  resetDetachedWindow_def app_getDragDetachedWindowId_def app_delete_def
  mapGet_def mapHas_def strictEq_def isNullish_def jsSub_def setIn_def mergeIn_def deleteIn_def
  unchanged_def Let_def

text \<open>
  A drag start followed by \<^verbatim>\<open>APP_SET_STATE\<close>: a drag has started and neither drag-cancelled
  nor drag-complete has followed, yet there is no session.
\<close>

theorem session_lifecycle_counterexample:
  "fst (runStore exampleIdleState
          [(exampleEnv, APP_TAB_DRAG_STARTED (Some exampleDragSourceData)),
           (exampleEnv, APP_SET_STATE)]) = Inr exampleIdleState \<and>
   tabDragData exampleIdleState = None \<and>
   sessionAfter cancelledOrComplete False
     (map snd [(exampleEnv, APP_TAB_DRAG_STARTED (Some exampleDragSourceData)),
               (exampleEnv, APP_SET_STATE)])"
  by (simp add: store_eval)

theorem session_exists_iff_started_and_not_removed_witness:
  "fst (runStore exampleIdleState
          [(exampleEnv, APP_TAB_DRAG_STARTED (Some exampleDragSourceData)),
           (exampleEnv, APP_TAB_DRAG_CANCELLED),
           (exampleEnv, APP_TAB_DRAG_STARTED (Some exampleDragSourceData))])
     = Inr exampleStartedState \<and>
   tabDragData exampleStartedState \<noteq> None \<and>
   sessionAfter removesSession (tabDragData exampleIdleState \<noteq> None)
     (map snd [(exampleEnv, APP_TAB_DRAG_STARTED (Some exampleDragSourceData)),
               (exampleEnv, APP_TAB_DRAG_CANCELLED),
               (exampleEnv, APP_TAB_DRAG_STARTED (Some exampleDragSourceData))])"
proof -
  let ?evs = "[(exampleEnv, APP_TAB_DRAG_STARTED (Some exampleDragSourceData)),
               (exampleEnv, APP_TAB_DRAG_CANCELLED),
               (exampleEnv, APP_TAB_DRAG_STARTED (Some exampleDragSourceData))]"
  have f: "fst (runStore exampleIdleState ?evs) = Inr exampleStartedState"
    by (simp add: store_eval)
  then have r: "runStore exampleIdleState ?evs =
                  (Inr exampleStartedState, snd (runStore exampleIdleState ?evs))"
    by (metis prod.collapse)
  have e: "tabDragData exampleStartedState \<noteq> None"
    by (simp add: exampleStartedState_def)
  from session_exists_iff_started_and_not_removed [OF r] f e show ?thesis
    by simp
qed

subsection \<open>Pending attach and detach\<close>

text \<open>
  A transition keeps the two detach markers paired, provided a drag start brings no
  \<^verbatim>\<open>detachedFromWindowId\<close> of its own.
\<close>

lemma reducer_markers_step:
  assumes "reducer env s a = (Inr s', out)"
    and "startsWithoutDetachedFrom a"
    and "detachMarkersPaired (tabDragData s)"
  shows "detachMarkersPaired (tabDragData s')"
proof (cases a)
  case APP_SET_STATE
  with assms show ?thesis by (auto simp: setState_def app_delete_def detachMarkersPaired_def)
next
  case (APP_TAB_DRAG_STARTED p)
  with assms show ?thesis
    by (auto simp: tabDragStarted_def Let_def setIn_def detachMarkersPaired_def mapHas_def
             split: option.splits if_splits)
next
  case APP_TAB_DRAG_CANCELLED
  with assms show ?thesis
    by (auto simp: tabDragCancelled_def detachMarkersPaired_def split: option.splits)
next
  case APP_TAB_DRAG_COMPLETE
  with assms show ?thesis
    by (auto simp: tabDragComplete_def detachMarkersPaired_def split: option.splits)
next
  case (APP_TAB_DRAG_CHANGE_WINDOW_DISPLAY_INDEX a1 a2 a3 a4)
  with assms show ?thesis
    by (auto simp: tabDragChangeWindowDisplayIndex_def unchanged_def Let_def mergeIn_def
                   detachMarkersPaired_def mapHas_def
             split: option.splits if_splits)
next
  case APP_TAB_ATTACHED
  with assms show ?thesis
    by (auto simp: tabAttached_def unchanged_def Let_def mergeIn_def setIn_def deleteIn_def
                   detachMarkersPaired_def mapHas_def
             split: option.splits if_splits)
next
  case (APP_TAB_DRAG_SINGLE_TAB_MOVED a1 a2 a3)
  with assms show ?thesis
    by (auto simp: tabDragSingleTabMoved_def unchanged_def Let_def split: option.splits if_splits)
next
  case (APP_TAB_DRAG_MOUSEOVER_OTHER_WINDOW_TAB a1 a2)
  with assms show ?thesis
    by (auto simp: tabDragMouseOverOtherWindowTab_def unchanged_def Let_def mergeIn_def
                   app_getDragData_def app_getSourceTabId_def
                   detachMarkersPaired_def mapHas_def
             split: option.splits if_splits)
next
  case (APP_TAB_DRAG_DETACH_REQUESTED a1 a2)
  with assms show ?thesis
    by (auto simp: tabDragDetachRequested_def unchanged_def Let_def mergeIn_def
                   detachMarkersPaired_def mapHas_def
             split: option.splits if_splits)
next
  case OTHER_ACTION
  with assms show ?thesis by (auto simp: unchanged_def)
qed


lemma runStore_markers:
  assumes "runStore s0 evs = (Inr s, out)"
    and "\<forall>ea\<in>set evs. startsWithoutDetachedFrom (snd ea)"
    and "detachMarkersPaired (tabDragData s0)"
  shows "detachMarkersPaired (tabDragData s)"
  using assms
proof (induction evs arbitrary: s0 out)
  case Nil
  then show ?case by simp
next
  case (Cons ea evs)
  from Cons.prems(1) obtain s1 out1 out2 where
    r: "reducer (fst ea) s0 (snd ea) = (Inr s1, out1)" and
    rest: "runStore s1 evs = (Inr s, out2)"
    by (rule runStore_Cons_Inr)
  from Cons.prems have "startsWithoutDetachedFrom (snd ea)"
    by simp
  with r Cons.prems(3) have "detachMarkersPaired (tabDragData s1)"
    using reducer_markers_step by blast
  with Cons.IH [OF rest] Cons.prems(2) show ?case
    by simp
qed

lemma marker_blocks_index_change:
  assumes "tabDragData s = Some d"
    and "mapHas d ''attachRequestedWindowId'' \<or> mapHas d ''detachToRequestedWindowId''"
  shows "reducer env s (APP_TAB_DRAG_CHANGE_WINDOW_DISPLAY_INDEX w i j m) = (Inr s, [])"
  using assms by (auto simp: tabDragChangeWindowDisplayIndex_def unchanged_def Let_def)

lemma marker_blocks_single_tab_move:
  assumes "tabDragData s = Some d"
    and "mapHas d ''attachRequestedWindowId'' \<or> mapHas d ''detachToRequestedWindowId''"
  shows "reducer env s (APP_TAB_DRAG_SINGLE_TAB_MOVED tx ty w) = (Inr s, [])"
  using assms by (auto simp: tabDragSingleTabMoved_def unchanged_def Let_def)

text \<open>
  C4. In every state that the store reaches from a state without a session, by actions
  handled without an exception whose drag starts carry no \<^verbatim>\<open>detachedFromWindowId\<close>:
  whenever one of the three markers \<^verbatim>\<open>attachRequestedWindowId\<close>,
  \<^verbatim>\<open>detachToRequestedWindowId\<close>, \<^verbatim>\<open>detachedFromWindowId\<close> is present on the session, a
  change-display-index action and a single-tab-moved action, whatever they carry, return
  the very same state and have no effect: neither the tab reindex nor the window move is
  scheduled. (The reducer tests the first two markers; the third is never there without
  the second.)
\<close>

theorem pending_markers_defer_moves:
  assumes run: "runStore s0 evs = (Inr s, out)"
    and init: "tabDragData s0 = None"
    and starts: "\<forall>ea\<in>set evs. startsWithoutDetachedFrom (snd ea)"
    and session: "tabDragData s = Some d"
    and marker: "anyRequestedMarker d"
  shows "reducer env s
           (APP_TAB_DRAG_CHANGE_WINDOW_DISPLAY_INDEX senderWindowId destinationDisplayIndex
              destinationFrameIndex requiresMouseUpdate) = (Inr s, []) \<and>
         reducer env s (APP_TAB_DRAG_SINGLE_TAB_MOVED tabX tabY windowId) = (Inr s, [])"
proof -
  from init have "detachMarkersPaired (tabDragData s0)"
    by (simp add: detachMarkersPaired_def)
  from runStore_markers [OF run starts this] session
  have "mapHas d ''detachToRequestedWindowId'' \<or> \<not> mapHas d ''detachedFromWindowId''"
    by (simp add: detachMarkersPaired_def)
  with marker have "mapHas d ''attachRequestedWindowId'' \<or> mapHas d ''detachToRequestedWindowId''"
    by (auto simp: anyRequestedMarker_def)
  with session show ?thesis
    using marker_blocks_index_change marker_blocks_single_tab_move by blast
qed

text \<open>After a drag start and a detach request both detach markers are present.\<close>

theorem pending_markers_defer_moves_witness:
  "fst (runStore exampleIdleState
          [(exampleEnv, APP_TAB_DRAG_STARTED (Some exampleDragSourceData)),
           (exampleEnv, APP_TAB_DRAG_DETACH_REQUESTED (Num 35) (Num 100))])
     = Inr exampleDetachRequestedState \<and>
   tabDragData exampleIdleState = None \<and>
   \<not> mapHas exampleDragSourceData ''detachedFromWindowId'' \<and>
   anyRequestedMarker exampleDetachRequestedData \<and>
   reducer exampleEnv exampleDetachRequestedState
     (APP_TAB_DRAG_CHANGE_WINDOW_DISPLAY_INDEX (Num 1) (Num 3) (Num 3) (Bool False))
     = (Inr exampleDetachRequestedState, []) \<and>
   reducer exampleEnv exampleDetachRequestedState
     (APP_TAB_DRAG_SINGLE_TAB_MOVED (Num 60) (Num 10) (Num 1))
     = (Inr exampleDetachRequestedState, [])"
proof -
  let ?evs = "[(exampleEnv, APP_TAB_DRAG_STARTED (Some exampleDragSourceData)),
               (exampleEnv, APP_TAB_DRAG_DETACH_REQUESTED (Num 35) (Num 100))]"
  have f: "fst (runStore exampleIdleState ?evs) = Inr exampleDetachRequestedState"
    by (simp add: tabDragDetachRequested_def exampleDetachRequestedState_def
          exampleDetachRequestedData_def store_eval)
  then have r: "runStore exampleIdleState ?evs =
                  (Inr exampleDetachRequestedState, snd (runStore exampleIdleState ?evs))"
    by (metis prod.collapse)
  have i: "tabDragData exampleIdleState = None"
    by (simp add: exampleIdleState_def)
  have c: "\<not> mapHas exampleDragSourceData ''detachedFromWindowId''"
    by (simp add: exampleDragSourceData_def mapHas_def)
  then have st: "\<forall>ea\<in>set ?evs. startsWithoutDetachedFrom (snd ea)"
    by simp
  have se: "tabDragData exampleDetachRequestedState = Some exampleDetachRequestedData"
    by (simp add: exampleDetachRequestedState_def)
  have m: "anyRequestedMarker exampleDetachRequestedData"
    by (simp add: anyRequestedMarker_def exampleDetachRequestedData_def mapHas_def)
  from pending_markers_defer_moves [OF r i st se m] f i c m show ?thesis
    by simp
qed

subsection \<open>The attach confirmation\<close>

lemma tabAttached_nothing_awaited:
  assumes "tabDragData state = Some d"
    and "isNullish (mapGet d ''attachRequestedWindowId'')"
    and "isNullish (mapGet d ''detachToRequestedWindowId'')"
  shows "reducer env state APP_TAB_ATTACHED = (Inr state, [])"
  using assms by (simp add: tabAttached_def unchanged_def Let_def)

lemma tabAttached_waiting:
  assumes "tabDragData state = Some d"
    and "\<not> isNullish (mapGet d ''attachRequestedWindowId'') \<and>
         \<not> strictEq (getWindowId state (mapGet d ''sourceTabId''))
              (mapGet d ''attachRequestedWindowId'') \<or>
         isNullish (mapGet d ''attachRequestedWindowId'') \<and>
         \<not> strictEq (getWindowId state (mapGet d ''sourceTabId''))
              (mapGet d ''detachToRequestedWindowId'')"
  shows "reducer env state APP_TAB_ATTACHED = (Inr state, [])"
  using assms by (auto simp add: tabAttached_def unchanged_def Let_def)

lemma tabAttached_attach_confirmed:
  assumes "tabDragData state = Some d"
    and "\<not> isNullish (mapGet d ''attachRequestedWindowId'')"
    and "strictEq (getWindowId state (mapGet d ''sourceTabId''))
           (mapGet d ''attachRequestedWindowId'')"
  shows "reducer env state APP_TAB_ATTACHED =
     (case getWindowClientPointAtCursor env
             (fromId env (getWindowId state (mapGet d ''sourceTabId''))) of
        None \<Rightarrow> (Inl TypeError, [])
      | Some cursorWindowPoint \<Rightarrow>
          (Inr (state\<lparr>tabDragData :=
                  Some (d(''attachRequestedWindowId'' := None,
                          ''displayIndexRequested'' := None,
                          ''dragDetachedWindowId'' := None,
                          ''currentWindowId'' \<mapsto> getWindowId state (mapGet d ''sourceTabId''),
                          ''dragWindowClientX'' \<mapsto> fst cursorWindowPoint,
                          ''dragWindowClientY'' \<mapsto> snd cursorWindowPoint))\<rparr>), []))"
  using assms
  by (simp add: tabAttached_def Let_def deleteIn_def mergeIn_def split: option.splits)

lemma tabAttached_detach_confirmed:
  assumes "tabDragData state = Some d"
    and "isNullish (mapGet d ''attachRequestedWindowId'')"
    and "\<not> isNullish (mapGet d ''detachToRequestedWindowId'')"
    and "strictEq (getWindowId state (mapGet d ''sourceTabId''))
           (mapGet d ''detachToRequestedWindowId'')"
  shows "reducer env state APP_TAB_ATTACHED =
     (Inr (state\<lparr>tabDragData :=
             Some (d(''detachedFromWindowId'' := None,
                     ''detachToRequestedWindowId'' := None,
                     ''displayIndexRequested'' := None,
                     ''currentWindowId'' \<mapsto> getWindowId state (mapGet d ''sourceTabId''),
                     ''dragDetachedWindowId'' \<mapsto> getWindowId state (mapGet d ''sourceTabId'')))\<rparr>),
      [])"
  using assms
  by (simp add: tabAttached_def Let_def deleteIn_def setIn_def)


text \<open>
  C5. Take a state with a session that awaits at most one confirmation (an attach or a
  detach, not both) and let the store handle a tab-attached action in it. Handling a
  tab-attached action again in the resulting state, in whatever world, returns that state
  unchanged and has no effect. When the first one applied the confirmation, because the tab
  was in the awaited window, it has cleared the marker, and the second finds nothing to
  wait for.
\<close>

theorem tab_attached_redelivery_is_noop:
  assumes s: "tabDragData state = Some d"
    and one: "isNullish (mapGet d ''attachRequestedWindowId'') \<or>
              isNullish (mapGet d ''detachToRequestedWindowId'')"
    and first: "reducer env state APP_TAB_ATTACHED = (Inr state', out)"
  shows "reducer env' state' APP_TAB_ATTACHED = (Inr state', [])"
proof -
  let ?tab = "getWindowId state (mapGet d ''sourceTabId'')"
  let ?a = "mapGet d ''attachRequestedWindowId''"
  let ?dt = "mapGet d ''detachToRequestedWindowId''"
  consider (idle) "isNullish ?a" "isNullish ?dt"
    | (waiting) "\<not> isNullish ?a \<and> \<not> strictEq ?tab ?a \<or> isNullish ?a \<and> \<not> strictEq ?tab ?dt"
    | (attach) "\<not> isNullish ?a" "strictEq ?tab ?a"
    | (detach) "isNullish ?a" "\<not> isNullish ?dt" "strictEq ?tab ?dt"
    by blast
  then show ?thesis
  proof cases
    case idle
    with s first have "state' = state"
      using tabAttached_nothing_awaited [of state d env] by simp
    with s idle show ?thesis
      using tabAttached_nothing_awaited by simp
  next
    case waiting
    with s first have "state' = state"
      using tabAttached_waiting [of state d env] by simp
    with s waiting show ?thesis
      using tabAttached_waiting [of state d env'] by simp
  next
    case attach
    with one have dn: "isNullish ?dt"
      by blast
    from first tabAttached_attach_confirmed [OF s attach, of env]
    obtain p where
      st: "state' = state\<lparr>tabDragData :=
                  Some (d(''attachRequestedWindowId'' := None,
                          ''displayIndexRequested'' := None,
                          ''dragDetachedWindowId'' := None,
                          ''currentWindowId'' \<mapsto> ?tab,
                          ''dragWindowClientX'' \<mapsto> fst p,
                          ''dragWindowClientY'' \<mapsto> snd p))\<rparr>"
      by (auto split: option.splits)
    let ?d' = "d(''attachRequestedWindowId'' := None,
                 ''displayIndexRequested'' := None,
                 ''dragDetachedWindowId'' := None,
                 ''currentWindowId'' \<mapsto> ?tab,
                 ''dragWindowClientX'' \<mapsto> fst p,
                 ''dragWindowClientY'' \<mapsto> snd p)"
    have 1: "tabDragData state' = Some ?d'"
      by (simp add: st)
    have 2: "isNullish (mapGet ?d' ''attachRequestedWindowId'')"
      by (simp add: mapGet_def isNullish_def)
    have "mapGet ?d' ''detachToRequestedWindowId'' = ?dt"
      by (simp add: mapGet_def)
    with dn have 3: "isNullish (mapGet ?d' ''detachToRequestedWindowId'')"
      by simp
    from tabAttached_nothing_awaited [OF 1 2 3] show ?thesis .
  next
    case detach
    from first tabAttached_detach_confirmed [OF s detach, of env]
    have st: "state' = state\<lparr>tabDragData :=
             Some (d(''detachedFromWindowId'' := None,
                     ''detachToRequestedWindowId'' := None,
                     ''displayIndexRequested'' := None,
                     ''currentWindowId'' \<mapsto> ?tab,
                     ''dragDetachedWindowId'' \<mapsto> ?tab))\<rparr>"
      by simp
    let ?d' = "d(''detachedFromWindowId'' := None,
                     ''detachToRequestedWindowId'' := None,
                     ''displayIndexRequested'' := None,
                     ''currentWindowId'' \<mapsto> ?tab,
                     ''dragDetachedWindowId'' \<mapsto> ?tab)"
    have 1: "tabDragData state' = Some ?d'"
      by (simp add: st)
    have 3: "isNullish (mapGet ?d' ''detachToRequestedWindowId'')"
      by (simp add: mapGet_def isNullish_def)
    have "mapGet ?d' ''attachRequestedWindowId'' = ?a"
      by (simp add: mapGet_def)
    with detach have 2: "isNullish (mapGet ?d' ''attachRequestedWindowId'')"
      by simp
    from tabAttached_nothing_awaited [OF 1 2 3] show ?thesis .
  qed
qed

theorem tab_attached_redelivery_is_noop_witness:
  "reducer exampleEnv exampleAttachRequestedState APP_TAB_ATTACHED = (Inr exampleAttachedState, []) \<and>
   mapHas exampleAttachRequestedData ''attachRequestedWindowId'' \<and>
   \<not> mapHas (the (tabDragData exampleAttachedState)) ''attachRequestedWindowId'' \<and>
   reducer exampleEnv exampleAttachedState APP_TAB_ATTACHED = (Inr exampleAttachedState, [])"
proof -
  have s: "tabDragData exampleAttachRequestedState = Some exampleAttachRequestedData"
    by (simp add: exampleAttachRequestedState_def)
  have one: "isNullish (mapGet exampleAttachRequestedData ''attachRequestedWindowId'') \<or>
             isNullish (mapGet exampleAttachRequestedData ''detachToRequestedWindowId'')"
    by (simp add: exampleAttachRequestedData_def exampleDragSourceData_def mapGet_def isNullish_def)
  have first: "reducer exampleEnv exampleAttachRequestedState APP_TAB_ATTACHED =
                 (Inr exampleAttachedState, [])"
    by (simp add: tabAttached_def exampleAttachRequestedState_def exampleAttachedState_def
          exampleAttachRequestedData_def store_eval)
  have m: "mapHas exampleAttachRequestedData ''attachRequestedWindowId''"
    by (simp add: exampleAttachRequestedData_def mapHas_def)
  have n: "\<not> mapHas (the (tabDragData exampleAttachedState)) ''attachRequestedWindowId''"
    by (simp add: exampleAttachedState_def mapHas_def)
  from tab_attached_redelivery_is_noop [OF s one first, of exampleEnv] first m n
  show ?thesis by simp
qed

subsection \<open>What a drag start fixes is kept\<close>

lemma geometry_upd [simp]:
  "k \<notin> geometryKeys \<Longrightarrow> dragStartGeometry (m(k \<mapsto> v)) = dragStartGeometry m"
  by (auto simp: dragStartGeometry_def mapGet_def geometryKeys_def)

lemma geometry_del [simp]:
  "k \<notin> geometryKeys \<Longrightarrow> dragStartGeometry (m(k := None)) = dragStartGeometry m"
  by (auto simp: dragStartGeometry_def mapGet_def geometryKeys_def)

lemma not_geometry_key [simp]:
  "''displayIndexRequested'' \<notin> geometryKeys"
  "''dragWindowClientX'' \<notin> geometryKeys"
  "''dragWindowClientY'' \<notin> geometryKeys"
  "''attachRequestedWindowId'' \<notin> geometryKeys"
  "''dragDetachedWindowId'' \<notin> geometryKeys"
  "''currentWindowId'' \<notin> geometryKeys"
  "''detachedFromWindowId'' \<notin> geometryKeys"
  "''detachToRequestedWindowId'' \<notin> geometryKeys"
  "''bufferWindowId'' \<notin> geometryKeys"
  "''detachedFromTabX'' \<notin> geometryKeys"
  "''detachedFromTabY'' \<notin> geometryKeys"
  by (simp_all add: geometryKeys_def)

lemma reducer_geometry_step:
  assumes "reducer env s a = (Inr s', out)"
    and "\<not> isDragStarted a"
    and "tabDragData s' = Some d'"
  shows "\<exists>d. tabDragData s = Some d \<and> dragStartGeometry d' = dragStartGeometry d"
proof (cases a)
  case APP_SET_STATE
  with assms show ?thesis by (auto simp: setState_def app_delete_def)
next
  case (APP_TAB_DRAG_STARTED p)
  with assms show ?thesis by simp
next
  case APP_TAB_DRAG_CANCELLED
  with assms show ?thesis
    by (auto simp: tabDragCancelled_def split: option.splits)
next
  case APP_TAB_DRAG_COMPLETE
  with assms show ?thesis
    by (auto simp: tabDragComplete_def split: option.splits)
next
  case (APP_TAB_DRAG_CHANGE_WINDOW_DISPLAY_INDEX a1 a2 a3 a4)
  with assms show ?thesis
    by (auto simp: tabDragChangeWindowDisplayIndex_def unchanged_def Let_def mergeIn_def
             split: option.splits if_splits)
next
  case APP_TAB_ATTACHED
  with assms show ?thesis
    by (auto simp: tabAttached_def unchanged_def Let_def mergeIn_def setIn_def deleteIn_def
             split: option.splits if_splits)
next
  case (APP_TAB_DRAG_SINGLE_TAB_MOVED a1 a2 a3)
  with assms show ?thesis
    by (auto simp: tabDragSingleTabMoved_def unchanged_def Let_def split: option.splits if_splits)
next
  case (APP_TAB_DRAG_MOUSEOVER_OTHER_WINDOW_TAB a1 a2)
  with assms show ?thesis
    by (auto simp: tabDragMouseOverOtherWindowTab_def unchanged_def Let_def mergeIn_def
                   app_getDragData_def app_getSourceTabId_def isNullish_def
             split: option.splits if_splits)
next
  case (APP_TAB_DRAG_DETACH_REQUESTED a1 a2)
  with assms show ?thesis
    by (auto simp: tabDragDetachRequested_def unchanged_def Let_def mergeIn_def
             split: option.splits if_splits)
next
  case OTHER_ACTION
  with assms show ?thesis by (auto simp: unchanged_def)
qed

lemma runStore_geometry:
  assumes "runStore s1 evs = (Inr s, out)"
    and "\<forall>ea\<in>set evs. \<not> isDragStarted (snd ea)"
    and "tabDragData s = Some d"
  shows "\<exists>d1. tabDragData s1 = Some d1 \<and> dragStartGeometry d = dragStartGeometry d1"
  using assms
proof (induction evs arbitrary: s1 out)
  case Nil
  then show ?case by simp
next
  case (Cons ea evs)
  from Cons.prems(1) obtain s2 out1 out2 where
    r: "reducer (fst ea) s1 (snd ea) = (Inr s2, out1)" and
    rest: "runStore s2 evs = (Inr s, out2)"
    by (rule runStore_Cons_Inr)
  from Cons.IH [OF rest] Cons.prems obtain d2 where
    d2: "tabDragData s2 = Some d2" and g2: "dragStartGeometry d = dragStartGeometry d2"
    by auto
  from Cons.prems have "\<not> isDragStarted (snd ea)"
    by simp
  from reducer_geometry_step [OF r this d2] g2 show ?case
    by auto
qed

subsection \<open>Moving the window of a single tab\<close>

lemma drag_started_geometry:
  assumes started: "reducer env0 s0 (APP_TAB_DRAG_STARTED (Some p)) = (Inr s1, out0)"
    and "mapGet p ''originScreenX'' = Num osx" and "mapGet p ''originClientX'' = Num ocx"
    and "mapGet p ''originScreenY'' = Num osy" and "mapGet p ''originClientY'' = Num ocy"
    and "mapGet p ''relativeXDragStart'' = Num rx" and "mapGet p ''relativeYDragStart'' = Num ry"
    and "fromId env0 (mapGet p ''originalWindowId'') = Some w0"
  shows "\<exists>d1. tabDragData s1 = Some d1 \<and>
           dragStartGeometry d1 =
             (Num (osx - ocx - of_int (fst (win_position w0))),
              Num (osy - ocy - of_int (snd (win_position w0))), Num rx, Num ry)"
proof -
  let ?d = "p ++ [''frameTopHeight'' \<mapsto> Num (osy - ocy - of_int (snd (win_position w0))),
                  ''frameLeftWidth'' \<mapsto> Num (osx - ocx - of_int (fst (win_position w0)))]"
  have g: "dragStartGeometry ?d =
             (Num (osx - ocx - of_int (fst (win_position w0))),
              Num (osy - ocy - of_int (snd (win_position w0))), Num rx, Num ry)"
    using assms(6,7) by (simp add: dragStartGeometry_def mapGet_def)
  from started assms(2-5,8) have
    "tabDragData s1 = Some (?d(''bufferWindowId'' \<mapsto> Num (of_int (win_id (createBufferWindow env0))))) \<or>
     tabDragData s1 = Some (?d(''dragDetachedWindowId'' \<mapsto> mapGet p ''originalWindowId''))"
    by (auto simp: tabDragStarted_def Let_def setIn_def jsSub_def split: if_splits)
  with g show ?thesis
    by (auto simp del: map_add_upd map_add_empty)
qed

lemma single_tab_moved_accepted:
  assumes "reducer env s (APP_TAB_DRAG_SINGLE_TAB_MOVED tabX tabY windowId) = (Inr s', out)"
    and "out \<noteq> []"
  shows "\<exists>d. tabDragData s = Some d \<and> s' = s \<and>
           out = [SetImmediate (MoveSingleTabWindow windowId d tabX tabY)]"
  using assms
  by (auto simp: tabDragSingleTabMoved_def unchanged_def Let_def strictEq_def
           split: option.splits if_splits)

lemma move_single_tab_window_runs:
  assumes "dragStartGeometry d = (Num fl, Num ft, Num rx, Num ry)"
    and "getCursorScreenPoint env' = (cx, cy)"
    and "fromId env' windowId = Some w"
  shows "runDeferred env' (MoveSingleTabWindow windowId d (Num tx) (Num ty)) =
           (None, [SetPosition (win_id w) (Num (of_int \<lfloor>cx - tx - fl - rx\<rfloor>))
                     (Num (of_int \<lfloor>cy - ty - ft - ry\<rfloor>)),
                   SetIgnoreMouseEvents (win_id w) True,
                   SetImmediate (RestoreMouseEvents (win_id w))])"
  using assms
  by (simp add: dragStartGeometry_def jsSub_def jsFloor_def Let_def)

text \<open>
  C8. A drag starts with numeric origin and grab offsets in a source window at
  \<open>(winX, winY)\<close>; the store then handles any actions but a drag start; then it accepts
  a single-tab-moved action, that is, it schedules something for it. Then the state is
  unchanged, the one thing scheduled is the window move, and when that callback runs, with
  the cursor at \<open>(cursorX, cursorY)\<close> by then, it sets the position of the event's window to
  \<open>windowX = \<lfloor>cursorX - tabX - frameLeftWidth - relativeX\<rfloor>\<close> and
  \<open>windowY = \<lfloor>cursorY - tabY - frameTopHeight - relativeY\<rfloor>\<close>, where
  \<open>frameLeftWidth = originScreenX - originClientX - winX\<close> and
  \<open>frameTopHeight = originScreenY - originClientY - winY\<close> are the values of the drag start.
  So the grabbed point of the tab, at \<open>windowX + frameLeftWidth + tabX + relativeX\<close> on the
  screen, is at the cursor or less than one pixel before it, and likewise vertically.
\<close>

theorem single_tab_window_follows_cursor:
  assumes started: "reducer env0 s0 (APP_TAB_DRAG_STARTED (Some p)) = (Inr s1, out0)"
    and origin: "mapGet p ''originScreenX'' = Num originScreenX"
      "mapGet p ''originClientX'' = Num originClientX"
      "mapGet p ''originScreenY'' = Num originScreenY"
      "mapGet p ''originClientY'' = Num originClientY"
    and grab: "mapGet p ''relativeXDragStart'' = Num relativeX"
      "mapGet p ''relativeYDragStart'' = Num relativeY"
    and source: "fromId env0 (mapGet p ''originalWindowId'') = Some sourceWindow"
      "win_position sourceWindow = (winX, winY)"
    and frame: "frameLeftWidth = originScreenX - originClientX - of_int winX"
      "frameTopHeight = originScreenY - originClientY - of_int winY"
    and run: "runStore s1 evs = (Inr s, out1)"
      "\<forall>ea\<in>set evs. \<not> isDragStarted (snd ea)"
    and moved: "reducer env s (APP_TAB_DRAG_SINGLE_TAB_MOVED (Num tabX) (Num tabY) windowId)
                  = (Inr s', out)"
      "out \<noteq> []"
    and later: "getCursorScreenPoint env' = (cursorX, cursorY)"
      "fromId env' windowId = Some win"
    and pos: "windowX = \<lfloor>cursorX - tabX - frameLeftWidth - relativeX\<rfloor>"
      "windowY = \<lfloor>cursorY - tabY - frameTopHeight - relativeY\<rfloor>"
  shows "s' = s \<and>
         (\<exists>callback. out = [SetImmediate callback] \<and>
            runDeferred env' callback =
              (None, [SetPosition (win_id win) (Num (of_int windowX)) (Num (of_int windowY)),
                      SetIgnoreMouseEvents (win_id win) True,
                      SetImmediate (RestoreMouseEvents (win_id win))])) \<and>
         of_int windowX + frameLeftWidth + tabX + relativeX \<le> cursorX \<and>
         cursorX < of_int windowX + frameLeftWidth + tabX + relativeX + 1 \<and>
         of_int windowY + frameTopHeight + tabY + relativeY \<le> cursorY \<and>
         cursorY < of_int windowY + frameTopHeight + tabY + relativeY + 1"
proof -
  from drag_started_geometry [OF started origin grab source(1)] source(2) frame
  obtain d1 where d1: "tabDragData s1 = Some d1"
    and g1: "dragStartGeometry d1 = (Num frameLeftWidth, Num frameTopHeight, Num relativeX, Num relativeY)"
    by auto
  from single_tab_moved_accepted [OF moved]
  obtain d where d: "tabDragData s = Some d" and same: "s' = s"
    and out: "out = [SetImmediate (MoveSingleTabWindow windowId d (Num tabX) (Num tabY))]"
    by blast
  from runStore_geometry [OF run d] d1 g1
  have g: "dragStartGeometry d = (Num frameLeftWidth, Num frameTopHeight, Num relativeX, Num relativeY)"
    by simp
  from move_single_tab_window_runs [OF g later] pos
  have cb: "runDeferred env' (MoveSingleTabWindow windowId d (Num tabX) (Num tabY)) =
              (None, [SetPosition (win_id win) (Num (of_int windowX)) (Num (of_int windowY)),
                      SetIgnoreMouseEvents (win_id win) True,
                      SetImmediate (RestoreMouseEvents (win_id win))])"
    by simp
  have bx: "of_int windowX + frameLeftWidth + tabX + relativeX \<le> cursorX \<and>
            cursorX < of_int windowX + frameLeftWidth + tabX + relativeX + 1"
    unfolding pos by linarith
  have by': "of_int windowY + frameTopHeight + tabY + relativeY \<le> cursorY \<and>
            cursorY < of_int windowY + frameTopHeight + tabY + relativeY + 1"
    unfolding pos by linarith
  from same out cb bx by' show ?thesis
    by blast
qed


text \<open>
  The tab's box is at (60.5, 10) in window 1 and the cursor at (400, 300): the window goes
  to (316, 255).
\<close>

theorem single_tab_window_follows_cursor_witness:
  "reducer exampleEnv exampleIdleState (APP_TAB_DRAG_STARTED (Some exampleDragSourceData))
     = (Inr exampleStartedState,
        [CreateBufferWindow, SetImmediate (MatchBufferWindowToSource 1 2 100 50)]) \<and>
   fst (runStore exampleStartedState
          [(exampleEnv, APP_TAB_DRAG_SINGLE_TAB_MOVED (Num 60) (Num 10) (Num 1))])
     = Inr exampleStartedState \<and>
   reducer exampleEnv exampleStartedState
     (APP_TAB_DRAG_SINGLE_TAB_MOVED (Num (121 / 2)) (Num 10) (Num 1))
     = (Inr exampleStartedState,
        [SetImmediate (MoveSingleTabWindow (Num 1) (the (tabDragData exampleStartedState))
                         (Num (121 / 2)) (Num 10))]) \<and>
   runDeferred exampleEnv
     (MoveSingleTabWindow (Num 1) (the (tabDragData exampleStartedState)) (Num (121 / 2)) (Num 10))
     = (None, [SetPosition 1 (Num 316) (Num 255), SetIgnoreMouseEvents 1 True,
               SetImmediate (RestoreMouseEvents 1)]) \<and>
   (316 :: real) + 8 + 121 / 2 + 15 \<le> 400 \<and> (400 :: real) < 316 + 8 + 121 / 2 + 15 + 1"
proof -
  let ?evs = "[(exampleEnv, APP_TAB_DRAG_SINGLE_TAB_MOVED (Num 60) (Num 10) (Num 1))]"
  let ?cb = "MoveSingleTabWindow (Num 1) (the (tabDragData exampleStartedState))
               (Num (121 / 2)) (Num 10)"
  have started: "reducer exampleEnv exampleIdleState
                   (APP_TAB_DRAG_STARTED (Some exampleDragSourceData))
                 = (Inr exampleStartedState,
                    [CreateBufferWindow, SetImmediate (MatchBufferWindowToSource 1 2 100 50)])"
    by (simp add: store_eval)
  have o: "mapGet exampleDragSourceData ''originScreenX'' = Num 308"
    "mapGet exampleDragSourceData ''originClientX'' = Num 200"
    "mapGet exampleDragSourceData ''originScreenY'' = Num 100"
    "mapGet exampleDragSourceData ''originClientY'' = Num 20"
    by (simp_all add: exampleDragSourceData_def mapGet_def)
  have g: "mapGet exampleDragSourceData ''relativeXDragStart'' = Num 15"
    "mapGet exampleDragSourceData ''relativeYDragStart'' = Num 5"
    by (simp_all add: exampleDragSourceData_def mapGet_def)
  have src: "fromId exampleEnv (mapGet exampleDragSourceData ''originalWindowId'')
               = Some (exampleWindow 1 True)"
    "win_position (exampleWindow 1 True) = (100, 50)"
    by (simp_all add: exampleDragSourceData_def mapGet_def exampleEnv_def exampleWindow_def)
  have fr: "(8::real) = 308 - 200 - of_int 100" "(30::real) = 100 - 20 - of_int 50"
    by simp_all
  have f: "fst (runStore exampleStartedState ?evs) = Inr exampleStartedState"
    by (simp add: tabDragSingleTabMoved_def store_eval)
  then have r: "runStore exampleStartedState ?evs =
                  (Inr exampleStartedState, snd (runStore exampleStartedState ?evs))"
    by (metis prod.collapse)
  have ns: "\<forall>ea\<in>set ?evs. \<not> isDragStarted (snd ea)"
    by simp
  have moved: "reducer exampleEnv exampleStartedState
                 (APP_TAB_DRAG_SINGLE_TAB_MOVED (Num (121 / 2)) (Num 10) (Num 1))
               = (Inr exampleStartedState, [SetImmediate ?cb])"
    "[SetImmediate ?cb] \<noteq> []"
    by (simp_all add: tabDragSingleTabMoved_def store_eval)
  have later: "getCursorScreenPoint exampleEnv = (400, 300)"
    "fromId exampleEnv (Num 1) = Some (exampleWindow 1 True)"
    by (simp_all add: exampleEnv_def)
  have pos: "(316::int) = \<lfloor>(400::real) - 121 / 2 - 8 - 15\<rfloor>"
    "(255::int) = \<lfloor>(300::real) - 10 - 30 - 5\<rfloor>"
    by simp_all
  from single_tab_window_follows_cursor [OF started o g src fr r ns moved later pos]
    started f moved(1)
  show ?thesis
    by (simp add: exampleWindow_def)
qed

subsection \<open>The detach request\<close>



section \<open>Theorems about the drag controller and the coordinator\<close>

subsection \<open>The destination index\<close>

lemma detectDragIndexPosition_bounds:
  assumes "0 \<le> firstTabDisplayIndex props"
    and "firstTabDisplayIndex props \<le> totalTabCount props - 1"
  shows "0 \<le> detectDragIndexPosition props rect tabWidth dragTabWidth tabLeft"
    and "detectDragIndexPosition props rect tabWidth dragTabWidth tabLeft \<le> totalTabCount props - 1"
  using assms by (auto simp: detectDragIndexPosition_def Let_def)

text \<open>
  C1. Take any sequence of sort-change detections of a drag, each with its own props, strip
  box, tab widths and pointer position, where the tab width is positive and
  \<open>0 \<le> firstTabDisplayIndex \<le> totalTabCount - 1\<close>. The destination index that
  \<^verbatim>\<open>detectDragIndexPosition\<close> produces for each of them, which is the index handed to
  \<^verbatim>\<open>onDragChangeIndex\<close> and from there to the store, lies in \<open>[0, totalTabCount - 1]\<close>. The
  pointer enters as \<open>tabLeft = clientX - parentClientRect.left - relativeXDragStart\<close>.
\<close>

theorem detected_index_within_tab_range:
  assumes "\<forall>(props, rect, tabWidth, dragTabWidth, e) \<in> set detections.
             0 < tabWidth \<and> 0 \<le> firstTabDisplayIndex props \<and>
             firstTabDisplayIndex props \<le> totalTabCount props - 1"
  shows "\<forall>(props, rect, tabWidth, dragTabWidth, e) \<in> set detections.
           0 \<le> detectDragIndexPosition props rect tabWidth dragTabWidth
                 (clientX e - rect_left rect - relativeXDragStart props) \<and>
           detectDragIndexPosition props rect tabWidth dragTabWidth
                 (clientX e - rect_left rect - relativeXDragStart props) \<le> totalTabCount props - 1"
  using assms detectDragIndexPosition_bounds by fastforce

theorem detected_index_within_tab_range_witness:
  "detectDragIndexPosition exampleProps exampleRect 100 100
     (clientX (ClientPoint 700 110) - rect_left exampleRect - relativeXDragStart exampleProps) = 5 \<and>
   detectDragIndexPosition exampleProps exampleRect 100 100
     (clientX (ClientPoint 20 110) - rect_left exampleRect - relativeXDragStart exampleProps) = 0 \<and>
   (0::real) < 100 \<and> 0 \<le> firstTabDisplayIndex exampleProps \<and>
   firstTabDisplayIndex exampleProps \<le> totalTabCount exampleProps - 1 \<and>
   totalTabCount exampleProps - 1 = 11"
proof -
  have h: "\<forall>(props, rect, tabWidth, dragTabWidth, e)
             \<in> set [(exampleProps, exampleRect, 100::real, 100::real, ClientPoint 700 110),
                    (exampleProps, exampleRect, 100, 100, ClientPoint 20 110)].
             0 < tabWidth \<and> 0 \<le> firstTabDisplayIndex props \<and>
             firstTabDisplayIndex props \<le> totalTabCount props - 1"
    by (simp add: exampleProps_def)
  from detected_index_within_tab_range [OF h] show ?thesis
    by (simp add: exampleProps_def exampleRect_def detectDragIndexPosition_def
          DRAG_PAGEMOVE_PX_THRESHOLD_def)
qed

text \<open>
  What the coordinator dispatches for such a destination: the destination itself or an end
  of the displayed page. With at least one tab displayed and the page inside the tab range,
  these are in the range as well.
\<close>

lemma dispatched_index_within_tab_range:
  assumes "0 \<le> firstTabDisplayIndex props"
    and "0 < displayedTabCount props"
    and "firstTabDisplayIndex props + int (displayedTabCount props) \<le> totalTabCount props"
    and "0 \<le> destinationIndex" and "destinationIndex \<le> totalTabCount props - 1"
    and "onDragChangeIndex coord props destinationIndex = (coord', suspend, out)"
    and "TabDragChangeGroupDisplayIndex b i \<in> set out"
  shows "0 \<le> i \<and> i \<le> totalTabCount props - 1"
  using assms
  by (auto simp: onDragChangeIndex_def Let_def
        clearDragPageIndexMoveTimeout_def beginOrContinueTimeoutForDragPageIndexMove_def
        split: option.splits prod.splits if_splits)

subsection \<open>Events forwarded by \<^verbatim>\<open>sendInputEvent\<close>\<close>

lemmas throttle_eval =
  onTabDraggingMouseMoveDetectSortChangeThrottled_def leadingEdge_def trailingEdge_def
  invokeFunc_def timerExpired_def shouldInvoke_def remainingWait_def THROTTLE_WAIT_def

text \<open>
  C10. The mouse-move handler of a dragging tab treats every DOM event with \<open>x = 1\<close> and
  \<open>y = 99\<close> as a forwarded one: all it does with the event it does with the point
  \<open>(screenX, screenY)\<close> in place of \<open>(clientX, clientY)\<close>, whatever the event's own
  \<open>clientX\<close> and \<open>clientY\<close> are, so a genuine pointer event at (1, 99) is reinterpreted
  too. Every other event, DOM event or replayed point, is worked with as it is.
\<close>

theorem mouse_event_at_1_99_is_reinterpreted:
  "onTabDraggingMouseMove props box now st (MouseEvent d) =
     (if ev_x d = 1 \<and> ev_y d = 99
      then processTabDraggingMouseMove props box now st
             (ClientPoint (ev_screenX d) (ev_screenY d))
      else processTabDraggingMouseMove props box now st (MouseEvent d)) \<and>
   onTabDraggingMouseMove props box now st (ClientPoint cx cy) =
     processTabDraggingMouseMove props box now st (ClientPoint cx cy)"
  by (simp add: onTabDraggingMouseMove_def)

text \<open>
  A genuine event at client point (1, 99), inside the strip's detach bounds, in a window at
  (400, 250) on the screen: the handler works with (401, 349), which the throttle lets
  through, and starts the detach timer.
\<close>

theorem mouse_event_at_1_99_is_reinterpreted_witness:
  "onTabDraggingMouseMove exampleProps None 0 (exampleInstance, None)
     (MouseEvent \<lparr>ev_x = 1, ev_y = 99, ev_clientX = 1, ev_clientY = 99,
                  ev_screenX = 401, ev_screenY = 349\<rparr>)
   = processTabDraggingMouseMove exampleProps None 0 (exampleInstance, None)
       (ClientPoint 401 349) \<and>
   snd (processTabDraggingMouseMove exampleProps None 0 (exampleInstance, None)
          (ClientPoint 401 349))
   = [RequestAnimationFrame (ClientPoint 401 349), SetTimeout 1, SetTimeout 0] \<and>
   \<not> isOutsideBounds exampleRect 44 (ClientPoint 1 99)"
  using mouse_event_at_1_99_is_reinterpreted
    [of exampleProps None 0 "(exampleInstance, None)"
        "\<lparr>ev_x = 1, ev_y = 99, ev_clientX = 1, ev_clientY = 99, ev_screenX = 401, ev_screenY = 349\<rparr>"]
  by (simp add: processTabDraggingMouseMove_def onTabDraggingMouseMoveDetectSortChange_def
        throttle_eval
        exampleProps_def exampleInstance_def exampleRect_def isOutsideBounds_def
        DRAG_DETACH_PX_THRESHOLD_X_def DRAG_DETACH_MS_TIME_BUFFER_def)

subsection \<open>The page-change debounce\<close>

lemma pageMoveTimeoutFired_pending:
  "pageMoveTimeoutFired (Some t) =
     (None, [ClearTimeout, TabDragNotPausingForPageChange,
             TabDragChangeGroupDisplayIndex False (pm_destinationIndex t)])"
  by (simp add: pageMoveTimeoutFired_def clearDragPageIndexMoveTimeout_def)

text \<open>
  C6. The page shows display indices 0 to 4 (\<open>firstTabDisplayIndex = 0\<close>,
  \<open>displayedTabCount = 5\<close>), the dragged tab is on it, and no page change is pending. A
  request for destination index 7 at once dispatches the move to index 4, the page boundary
  (unless the tab is there already), tells the store that the drag is pausing for the next
  page, and starts a 1000 ms timer for index 7; the caller is told to pause exactly when a
  move was dispatched. When a request for index 3 arrives while that timer is pending, the
  timer is cleared, the pausing is withdrawn, and the move to index 3 is dispatched at once
  (unless the tab is at index 3 already); the cleared timer does nothing if it is run, so
  index 7 and the page change are never dispatched.
\<close>

theorem page_change_debounce:
  assumes "firstTabDisplayIndex props = 0" and "displayedTabCount props = 5"
    and "0 \<le> displayIndex props" and "displayIndex props \<le> 4"
    and "firstTabDisplayIndex props' = 0" and "displayedTabCount props' = 5"
    and "0 \<le> displayIndex props'" and "displayIndex props' \<le> 4"
  shows "onDragChangeIndex None props 7 =
           (Some \<lparr>pm_delay = 1000, pm_destinationIndex = 7\<rparr>,
            displayIndex props \<noteq> 4,
            (if displayIndex props \<noteq> 4 then [TabDragChangeGroupDisplayIndex False 4] else []) @
            [TabDragPausingForPageChange (tabPageIndex props + 1), SetTimeout 1000]) \<and>
         onDragChangeIndex (Some \<lparr>pm_delay = 1000, pm_destinationIndex = 7\<rparr>) props' 3 =
           (None, displayIndex props' \<noteq> 3,
            [ClearTimeout, TabDragNotPausingForPageChange] @
            (if displayIndex props' \<noteq> 3 then [TabDragChangeGroupDisplayIndex False 3] else [])) \<and>
         pageMoveTimeoutFired None = (None, [])"
  using assms
  by (simp add: onDragChangeIndex_def beginOrContinueTimeoutForDragPageIndexMove_def
        clearDragPageIndexMoveTimeout_def pageMoveTimeoutFired_def
        DRAG_PAGEMOVE_MS_TIME_BUFFER_def Let_def)

text \<open>
  The tab is at index 2 when index 7 is requested, and at index 4 when index 3 is.
\<close>

theorem page_change_debounce_witness:
  "firstTabDisplayIndex exampleProps = 0 \<and> displayedTabCount exampleProps = 5 \<and>
   displayIndex exampleProps = 2 \<and>
   displayIndex (exampleProps\<lparr>displayIndex := 4\<rparr>) = 4 \<and>
   onDragChangeIndex None exampleProps 7 =
     (Some \<lparr>pm_delay = 1000, pm_destinationIndex = 7\<rparr>, True,
      [TabDragChangeGroupDisplayIndex False 4, TabDragPausingForPageChange 1, SetTimeout 1000]) \<and>
   onDragChangeIndex (Some \<lparr>pm_delay = 1000, pm_destinationIndex = 7\<rparr>)
     (exampleProps\<lparr>displayIndex := 4\<rparr>) 3 =
     (None, True,
      [ClearTimeout, TabDragNotPausingForPageChange, TabDragChangeGroupDisplayIndex False 3]) \<and>
   pageMoveTimeoutFired None = (None, [])"
  using page_change_debounce [of exampleProps "exampleProps\<lparr>displayIndex := 4\<rparr>"]
  by (simp add: exampleProps_def)

subsection \<open>The detach confirmation\<close>



lemma detachIntents_Nil [simp]: "detachIntents [] = 0"
  by (simp add: detachIntents_def)

lemma detachIntents_Cons [simp]:
  "detachIntents (x # xs) = (if isDetachRequested x then 1 else 0) + detachIntents xs"
  by (simp add: detachIntents_def)

lemma detachIntents_append [simp]:
  "detachIntents (xs @ ys) = detachIntents xs + detachIntents ys"
  by (simp add: detachIntents_def)






































end
